theory Spec2Isabelle
  imports Main "HOL-Library.Sublist"
begin

section \<open>Python values and exceptions\<close>

text \<open>
  The values that \<^verbatim>\<open>json.loads\<close> produces and that the pipeline passes around
  unvalidated. JSON numbers with a fraction or an exponent are left out.
\<close>

datatype pyval =
    PNone
  | PBool bool
  | PInt int
  | PStr string
  | PList "pyval list"
  | PDict "(string \<times> pyval) list"

text \<open>An exception: its class name and its message (what \<^verbatim>\<open>str(e)\<close> gives).\<close>

datatype exn = Exn string string

fun exn_str :: "exn \<Rightarrow> string" where
  "exn_str (Exn c m) = m"

fun type_name :: "pyval \<Rightarrow> string" where
  "type_name PNone = ''NoneType''"
| "type_name (PBool b) = ''bool''"
| "type_name (PInt n) = ''int''"
| "type_name (PStr s) = ''str''"
| "type_name (PList xs) = ''list''"
| "type_name (PDict d) = ''dict''"

definition quoted :: "string \<Rightarrow> string" where
  "quoted s = [CHR 0x27] @ s @ [CHR 0x27]"

text \<open>Truthiness, as \<^verbatim>\<open>if x:\<close> and \<^verbatim>\<open>not x\<close> read it.\<close>

fun py_truthy :: "pyval \<Rightarrow> bool" where
  "py_truthy PNone = False"
| "py_truthy (PBool b) = b"
| "py_truthy (PInt n) = (n \<noteq> 0)"
| "py_truthy (PStr s) = (s \<noteq> [])"
| "py_truthy (PList xs) = (xs \<noteq> [])"
| "py_truthy (PDict d) = (d \<noteq> [])"

text \<open>\<^verbatim>\<open>d.get(k, default)\<close> on a dict held as an association list.\<close>

definition dict_get :: "(string \<times> 'v) list \<Rightarrow> string \<Rightarrow> 'v \<Rightarrow> 'v" where
  "dict_get d k dflt = (case map_of d k of None \<Rightarrow> dflt | Some v \<Rightarrow> v)"

text \<open>\<^verbatim>\<open>x.get(k, default)\<close> on any value: only a dict has the method.\<close>

fun py_get :: "pyval \<Rightarrow> string \<Rightarrow> pyval \<Rightarrow> exn + pyval" where
  "py_get (PDict d) k dflt = Inr (dict_get d k dflt)"
| "py_get v k dflt =
     Inl (Exn ''AttributeError''
       (quoted (type_name v) @ '' object has no attribute '' @ quoted ''get''))"

text \<open>\<^verbatim>\<open>len(x)\<close>.\<close>

fun py_len :: "pyval \<Rightarrow> exn + nat" where
  "py_len (PStr s) = Inr (length s)"
| "py_len (PList xs) = Inr (length xs)"
| "py_len (PDict d) = Inr (length d)"
| "py_len v =
     Inl (Exn ''TypeError'' (''object of type '' @ quoted (type_name v) @ '' has no len()''))"

text \<open>\<^verbatim>\<open>xs[:n]\<close> for a non-negative or negative bound \<open>n\<close>.\<close>

definition py_slice_to :: "'a list \<Rightarrow> int \<Rightarrow> 'a list" where
  "py_slice_to xs n =
     (if 0 \<le> n then take (nat n) xs else take (nat (int (length xs) + n)) xs)"

text \<open>
  The values a \<^verbatim>\<open>for q in x[:n]\<close> loop runs over: the first items of a list, the
  first characters of a string; slicing anything else raises.
\<close>

fun py_slice_iter :: "pyval \<Rightarrow> int \<Rightarrow> exn + pyval list" where
  "py_slice_iter (PList xs) n = Inr (py_slice_to xs n)"
| "py_slice_iter (PStr s) n = Inr (map (\<lambda>c. PStr [c]) (py_slice_to s n))"
| "py_slice_iter (PDict d) n = Inl (Exn ''TypeError'' (''unhashable type: '' @ quoted ''slice''))"
| "py_slice_iter v n =
     Inl (Exn ''TypeError'' (quoted (type_name v) @ '' object is not subscriptable''))"

section \<open>Python strings\<close>

text \<open>
  A character is modelled by its code point below 256; these are the ones
  \<^verbatim>\<open>str.strip()\<close> removes.
\<close>

definition is_space :: "char \<Rightarrow> bool" where
  "is_space c = ((of_char c :: nat) \<in> set [9, 10, 11, 12, 13, 28, 29, 30, 31, 32, 133, 160])"

definition py_strip :: "string \<Rightarrow> string" where
  "py_strip s = rev (dropWhile is_space (rev (dropWhile is_space s)))"

text \<open>\<^verbatim>\<open>sub in s\<close> on strings.\<close>

fun py_contains :: "string \<Rightarrow> string \<Rightarrow> bool" where
  "py_contains sub [] = (sub = [])"
| "py_contains sub (c # cs) = (prefix sub (c # cs) \<or> py_contains sub cs)"

text \<open>
  \<^verbatim>\<open>s.split(sep)\<close> for a non-empty separator: \<open>cur\<close> holds the piece being read,
  reversed.
\<close>

fun py_split_aux :: "string \<Rightarrow> string \<Rightarrow> string \<Rightarrow> string list" where
  "py_split_aux sep cur [] = [rev cur]"
| "py_split_aux sep cur (c # cs) =
     (if sep \<noteq> [] \<and> prefix sep (c # cs)
      then rev cur # py_split_aux sep [] (drop (length sep - 1) cs)
      else py_split_aux sep (c # cur) cs)"

definition py_split :: "string \<Rightarrow> string \<Rightarrow> string list" where
  "py_split s sep = py_split_aux sep [] s"

text \<open>\<^verbatim>\<open>sep.join(xs)\<close>.\<close>

fun py_join :: "string \<Rightarrow> string list \<Rightarrow> string" where
  "py_join sep [] = []"
| "py_join sep [x] = x"
| "py_join sep (x # y # ys) = x @ sep @ py_join sep (y # ys)"

section \<open>The outside world\<close>

text \<open>
  Every call that leaves the process is recorded in a trace, newest last: loading the
  API client, a statement sent to the database (by the name of the adapter method), a
  request to the language model (model, token bound), a web search (query, result
  bound) and a page fetch (URL).
\<close>

datatype event =
    EClient
  | EDb string
  | ELlm string nat
  | ESearch pyval int
  | EFetch string

fun is_search :: "event \<Rightarrow> bool" where
  "is_search (ESearch q n) = True"
| "is_search e = False"

fun is_fetch :: "event \<Rightarrow> bool" where
  "is_fetch (EFetch u) = True"
| "is_fetch e = False"


fun is_db :: "event \<Rightarrow> bool" where
  "is_db (EDb n) = True"
| "is_db e = False"

text \<open>
  What the outside answers is a parameter. Each answer may depend on the whole history
  of calls, the call being answered included: whether loading the client or a database
  statement raises, the database clock, the content blocks of the model's reply, the
  rows of the search provider, the status and body of an HTTP response. The library
  functions \<^verbatim>\<open>html2text\<close>, \<^verbatim>\<open>json.loads\<close> (which may raise an exception of any
  class) and \<^verbatim>\<open>str\<close> are parameters too, and so is what PostgreSQL makes of an id
  parameter that is neither an integer nor \<^verbatim>\<open>None\<close>: the key of a row, no row, or
  an error.
\<close>

record env =
  anthropic_client :: "event list \<Rightarrow> exn option"
  db_fault :: "event list \<Rightarrow> exn option"
  current_timestamp :: "event list \<Rightarrow> nat"
  messages_create :: "event list \<Rightarrow> exn + string list"
  ddgs_text :: "event list \<Rightarrow> exn + (string \<times> string) list list"
  requests_get :: "event list \<Rightarrow> exn + nat \<times> string"
  html2text_handle :: "string \<Rightarrow> exn + string"
  json_loads :: "string \<Rightarrow> exn + pyval"
  str_builtin :: "pyval \<Rightarrow> string"
  pg_id_param :: "pyval \<Rightarrow> exn + int option"

section \<open>The store\<close>

record interest_row =
  i_topic :: pyval
  why_interested :: pyval
  sparked_by :: pyval
  i_priority :: pyval
  tags :: pyval
  i_status :: string
  insights_gained :: "pyval list"
  remaining_questions :: pyval
  last_explored_at :: "nat option"

record request_row =
  r_topic :: pyval
  r_queries :: pyval
  why_researching :: pyval
  r_hoping_to_learn :: pyval
  r_priority :: pyval
  r_interest_id :: pyval
  r_project_id :: pyval
  r_status :: string
  r_started_at :: "nat option"
  r_completed_at :: "nat option"
  r_error_message :: pyval

record result_row =
  rr_request_id :: pyval
  query_used :: pyval
  source_url :: string
  source_title :: string
  rr_snippet :: string
  full_content :: "string option"
  content_type :: string
  relevance_score :: pyval

record insight_row =
  l_topic :: pyval
  l_summary :: pyval
  l_insights :: pyval
  l_questions :: pyval
  l_confidence :: pyval
  l_sources :: pyval
  l_request_id :: pyval
  l_interest_id :: pyval

record session_row =
  session_type :: string
  topic_chosen :: pyval
  choice_reason :: pyval
  s_status :: string
  insights_count :: "nat option"
  new_questions_count :: "nat option"
  new_interests_sparked :: "nat option"
  s_error_message :: pyval
  s_started_at :: nat
  s_completed_at :: "nat option"
  duration_seconds :: "nat option"

record db =
  learning_interests :: "int \<rightharpoonup> interest_row"
  interest_seq :: int
  research_requests :: "int \<rightharpoonup> request_row"
  request_seq :: int
  research_results :: "result_row list"
  learning_insights :: "int \<rightharpoonup> insight_row"
  insight_seq :: int
  learning_sessions :: "int \<rightharpoonup> session_row"
  session_seq :: int

text \<open>
  The \<^verbatim>\<open>ClaudeLearning\<close> object with what it reaches: the database behind its
  connection, whether its lazily loaded client is there, and the trace of calls.
\<close>

record world =
  store :: db
  client :: bool
  trace :: "event list"

section \<open>Computations that may raise\<close>

type_synonym 'a m = "world \<Rightarrow> (exn + 'a) \<times> world"

definition ret :: "'a \<Rightarrow> 'a m" where
  "ret x w = (Inr x, w)"

definition lift :: "exn + 'a \<Rightarrow> 'a m" where
  "lift r w = (r, w)"

definition bind :: "'a m \<Rightarrow> ('a \<Rightarrow> 'b m) \<Rightarrow> 'b m" where
  "bind f k w = (case f w of (Inl e, w') \<Rightarrow> (Inl e, w') | (Inr x, w') \<Rightarrow> k x w')"

text \<open>
  One statement sent through a cursor: it is recorded, then it either raises (nothing
  is written; the connection is in autocommit mode, so nothing earlier is undone) or
  the statement \<open>stmt\<close> runs on the tables at the database's current time.
\<close>

definition db_execute :: "env \<Rightarrow> string \<Rightarrow> (nat \<Rightarrow> db \<Rightarrow> exn + 'a \<times> db) \<Rightarrow> 'a m" where
  "db_execute en name stmt w =
     (let tr = trace w @ [EDb name] in
      case db_fault en tr of
        Some e \<Rightarrow> (Inl e, w\<lparr>trace := tr\<rparr>)
      | None \<Rightarrow>
          (case stmt (current_timestamp en tr) (store w) of
             Inl e \<Rightarrow> (Inl e, w\<lparr>trace := tr\<rparr>)
           | Inr (x, d) \<Rightarrow> (Inr x, w\<lparr>trace := tr, store := d\<rparr>)))"

text \<open>
  The row a \<^verbatim>\<open>WHERE id = %s\<close> selects: an integer names a row, \<^verbatim>\<open>None\<close> (SQL
  NULL) matches none, and for a value of any other type the database decides.
\<close>

fun row_key :: "env \<Rightarrow> pyval \<Rightarrow> exn + int option" where
  "row_key en (PInt n) = Inr (Some n)"
| "row_key en PNone = Inr None"
| "row_key en v = pg_id_param en v"

subsection \<open>Learning interests\<close>

text \<open>
  Modelled from the spec: the stored procedure \<^verbatim>\<open>add_learning_interest\<close> is not
  part of the sources. It creates an interest in status \<^verbatim>\<open>curious\<close> with no insights
  and no questions, under a fresh id, which it returns.
\<close>

definition sql_add_learning_interest ::
  "pyval \<Rightarrow> pyval \<Rightarrow> pyval \<Rightarrow> pyval \<Rightarrow> pyval \<Rightarrow> nat \<Rightarrow> db \<Rightarrow> exn + int \<times> db" where
  "sql_add_learning_interest topic why sparked prio tgs now d =
     (let k = interest_seq d + 1 in
      Inr (k, d\<lparr>interest_seq := k,
               learning_interests := (learning_interests d)(k \<mapsto>
                 \<lparr>i_topic = topic, why_interested = why, sparked_by = sparked,
                  i_priority = prio, tags = tgs, i_status = ''curious'',
                  insights_gained = [], remaining_questions = PList [],
                  last_explored_at = None\<rparr>)\<rparr>))"

definition add_learning_interest ::
  "env \<Rightarrow> pyval \<Rightarrow> pyval \<Rightarrow> pyval \<Rightarrow> pyval \<Rightarrow> pyval \<Rightarrow> int m" where
  "add_learning_interest en topic why_int sparked prio tgs =
     db_execute en ''add_learning_interest''
       (sql_add_learning_interest topic why_int sparked prio
          (if py_truthy tgs then tgs else PList []))"

text \<open>\<^verbatim>\<open>a || b\<close> on jsonb with an array on the left: an array on the right is
  concatenated, any other value is appended as one element.\<close>

fun jsonb_concat :: "pyval list \<Rightarrow> pyval \<Rightarrow> pyval list" where
  "jsonb_concat xs (PList ys) = xs @ ys"
| "jsonb_concat xs v = xs @ [v]"

text \<open>
  The \<^verbatim>\<open>UPDATE learning_interests\<close> statement. Every right-hand side reads the row
  as it was before the update. \<open>j\<close> is \<^verbatim>\<open>Json(insights)\<close>, \<open>q\<close> the questions
  parameter (\<open>None\<close> for SQL NULL), \<open>n\<close> is \<^verbatim>\<open>len(insights)\<close>.
\<close>

definition interest_update_row :: "pyval \<Rightarrow> pyval option \<Rightarrow> nat \<Rightarrow> nat \<Rightarrow> interest_row \<Rightarrow> interest_row" where
  "interest_update_row j q n now r =
     r\<lparr>insights_gained := jsonb_concat (insights_gained r) j,
       remaining_questions := (case q of Some v \<Rightarrow> v | None \<Rightarrow> remaining_questions r),
       last_explored_at := Some now,
       i_status :=
         (if i_status r = ''curious'' then ''exploring''
          else if length (insights_gained r) + n > 10 then ''deepening''
          else i_status r)\<rparr>"

definition sql_update_interest ::
  "env \<Rightarrow> pyval \<Rightarrow> pyval \<Rightarrow> pyval option \<Rightarrow> nat \<Rightarrow> nat \<Rightarrow> db \<Rightarrow> exn + unit \<times> db" where
  "sql_update_interest en interest_id j q n now d =
     (case row_key en interest_id of
        Inl e \<Rightarrow> Inl e
      | Inr None \<Rightarrow> Inr ((), d)
      | Inr (Some k) \<Rightarrow>
          (case learning_interests d k of
             None \<Rightarrow> Inr ((), d)
           | Some r \<Rightarrow>
               Inr ((), d\<lparr>learning_interests :=
                          (learning_interests d)(k \<mapsto> interest_update_row j q n now r)\<rparr>)))"

definition update_interest_insights :: "env \<Rightarrow> pyval \<Rightarrow> pyval \<Rightarrow> pyval \<Rightarrow> unit m" where
  "update_interest_insights en interest_id insights questions =
     bind (lift (py_len insights)) (\<lambda>n.
       db_execute en ''update_interest_insights''
         (sql_update_interest en interest_id insights
            (if py_truthy questions then Some questions else None) n))"

subsection \<open>Research requests and results\<close>

text \<open>
  Modelled from the spec: the stored procedure \<^verbatim>\<open>queue_research\<close> is not part of
  the sources. It creates a request in status \<^verbatim>\<open>pending\<close> under a fresh id, which it
  returns.
\<close>

definition sql_queue_research ::
  "pyval \<Rightarrow> pyval \<Rightarrow> pyval \<Rightarrow> pyval \<Rightarrow> pyval \<Rightarrow> pyval \<Rightarrow> pyval \<Rightarrow> nat \<Rightarrow> db \<Rightarrow> exn + int \<times> db" where
  "sql_queue_research topic qs why hoping prio interest_id project_id now d =
     (let k = request_seq d + 1 in
      Inr (k, d\<lparr>request_seq := k,
               research_requests := (research_requests d)(k \<mapsto>
                 \<lparr>r_topic = topic, r_queries = qs, why_researching = why,
                  r_hoping_to_learn = hoping, r_priority = prio,
                  r_interest_id = interest_id, r_project_id = project_id,
                  r_status = ''pending'', r_started_at = None, r_completed_at = None,
                  r_error_message = PNone\<rparr>)\<rparr>))"

definition queue_research ::
  "env \<Rightarrow> pyval \<Rightarrow> pyval \<Rightarrow> pyval \<Rightarrow> pyval \<Rightarrow> pyval \<Rightarrow> pyval \<Rightarrow> pyval \<Rightarrow> int m" where
  "queue_research en topic qs why hoping prio interest_id project_id =
     db_execute en ''queue_research''
       (sql_queue_research topic qs why hoping prio interest_id project_id)"

text \<open>The four \<^verbatim>\<open>UPDATE research_requests\<close> statements, chosen by the new status.\<close>

definition request_update_row :: "string \<Rightarrow> pyval \<Rightarrow> nat \<Rightarrow> request_row \<Rightarrow> request_row" where
  "request_update_row status error now r =
     (if status = ''in_progress'' then r\<lparr>r_status := status, r_started_at := Some now\<rparr>
      else if status = ''completed'' then r\<lparr>r_status := status, r_completed_at := Some now\<rparr>
      else if status = ''failed''
        then r\<lparr>r_status := status, r_error_message := error, r_completed_at := Some now\<rparr>
      else r\<lparr>r_status := status\<rparr>)"

definition sql_update_research_status ::
  "env \<Rightarrow> pyval \<Rightarrow> string \<Rightarrow> pyval \<Rightarrow> nat \<Rightarrow> db \<Rightarrow> exn + unit \<times> db" where
  "sql_update_research_status en request_id status error now d =
     (case row_key en request_id of
        Inl e \<Rightarrow> Inl e
      | Inr None \<Rightarrow> Inr ((), d)
      | Inr (Some k) \<Rightarrow>
          (case research_requests d k of
             None \<Rightarrow> Inr ((), d)
           | Some r \<Rightarrow>
               Inr ((), d\<lparr>research_requests :=
                          (research_requests d)(k \<mapsto> request_update_row status error now r)\<rparr>)))"

definition update_research_status :: "env \<Rightarrow> pyval \<Rightarrow> string \<Rightarrow> pyval \<Rightarrow> unit m" where
  "update_research_status en request_id status error =
     db_execute en ''update_research_status''
       (sql_update_research_status en request_id status error)"

definition sql_save_research_result :: "result_row \<Rightarrow> nat \<Rightarrow> db \<Rightarrow> exn + unit \<times> db" where
  "sql_save_research_result row now d =
     Inr ((), d\<lparr>research_results := research_results d @ [row]\<rparr>)"

definition save_research_result ::
  "env \<Rightarrow> pyval \<Rightarrow> pyval \<Rightarrow> string \<Rightarrow> string \<Rightarrow> string \<Rightarrow> string option \<Rightarrow> string \<Rightarrow> pyval \<Rightarrow> unit m" where
  "save_research_result en request_id query url title snip content ctype relevance =
     db_execute en ''save_research_result''
       (sql_save_research_result
          \<lparr>rr_request_id = request_id, query_used = query, source_url = url,
           source_title = title, rr_snippet = snip, full_content = content,
           content_type = ctype, relevance_score = relevance\<rparr>)"

subsection \<open>Insights\<close>

text \<open>
  Modelled from the spec: the stored procedure \<^verbatim>\<open>record_insight\<close> is not part of
  the sources. It appends one insight under a fresh id, which it returns.
\<close>

definition sql_record_insight :: "insight_row \<Rightarrow> nat \<Rightarrow> db \<Rightarrow> exn + int \<times> db" where
  "sql_record_insight row now d =
     (let k = insight_seq d + 1 in
      Inr (k, d\<lparr>insight_seq := k, learning_insights := (learning_insights d)(k \<mapsto> row)\<rparr>))"

definition record_insight ::
  "env \<Rightarrow> pyval \<Rightarrow> pyval \<Rightarrow> pyval \<Rightarrow> pyval \<Rightarrow> pyval \<Rightarrow> pyval \<Rightarrow> pyval \<Rightarrow> pyval \<Rightarrow> int m" where
  "record_insight en topic summary insights questions confidence sources request_id interest_id =
     db_execute en ''record_insight''
       (sql_record_insight
          \<lparr>l_topic = topic, l_summary = summary, l_insights = insights,
           l_questions = (if py_truthy questions then questions else PList []),
           l_confidence = confidence,
           l_sources = (if py_truthy sources then sources else PList []),
           l_request_id = request_id, l_interest_id = interest_id\<rparr>)"

subsection \<open>Learning sessions\<close>

text \<open>
  The \<^verbatim>\<open>INSERT INTO learning_sessions (session_type)\<close>. Modelled from the spec: the
  table's defaults are not part of the sources; a new session is in status
  \<^verbatim>\<open>in_progress\<close> with its start time recorded and nothing else set.
\<close>

definition new_session_row :: "string \<Rightarrow> nat \<Rightarrow> session_row" where
  "new_session_row stype now =
     \<lparr>session_type = stype, topic_chosen = PNone, choice_reason = PNone,
      s_status = ''in_progress'', insights_count = None,
      new_questions_count = None, new_interests_sparked = None,
      s_error_message = PNone, s_started_at = now, s_completed_at = None,
      duration_seconds = None\<rparr>"

definition sql_start_learning_session :: "string \<Rightarrow> nat \<Rightarrow> db \<Rightarrow> exn + int \<times> db" where
  "sql_start_learning_session stype now d =
     (let k = session_seq d + 1 in
      Inr (k, d\<lparr>session_seq := k,
               learning_sessions := (learning_sessions d)(k \<mapsto> new_session_row stype now)\<rparr>))"

definition start_learning_session :: "env \<Rightarrow> string \<Rightarrow> int m" where
  "start_learning_session en stype =
     db_execute en ''start_learning_session'' (sql_start_learning_session stype)"

definition session_update_row ::
  "pyval \<Rightarrow> pyval \<Rightarrow> string \<Rightarrow> nat \<Rightarrow> nat \<Rightarrow> nat \<Rightarrow> pyval \<Rightarrow> nat \<Rightarrow> session_row \<Rightarrow> session_row" where
  "session_update_row topic reason status ic qc ni error now r =
     r\<lparr>topic_chosen := topic, choice_reason := reason, s_status := status,
       insights_count := Some ic, new_questions_count := Some qc,
       new_interests_sparked := Some ni, s_error_message := error,
       s_completed_at := Some now, duration_seconds := Some (now - s_started_at r)\<rparr>"

definition sql_complete_learning_session ::
  "int \<Rightarrow> pyval \<Rightarrow> pyval \<Rightarrow> string \<Rightarrow> nat \<Rightarrow> nat \<Rightarrow> nat \<Rightarrow> pyval \<Rightarrow> nat \<Rightarrow> db \<Rightarrow> exn + unit \<times> db" where
  "sql_complete_learning_session session_id topic reason status ic qc ni error now d =
     (case learning_sessions d session_id of
        None \<Rightarrow> Inr ((), d)
      | Some r \<Rightarrow>
          Inr ((), d\<lparr>learning_sessions :=
                     (learning_sessions d)(session_id \<mapsto>
                        session_update_row topic reason status ic qc ni error now r)\<rparr>))"

definition complete_learning_session ::
  "env \<Rightarrow> int \<Rightarrow> pyval \<Rightarrow> pyval \<Rightarrow> string \<Rightarrow> nat \<Rightarrow> nat \<Rightarrow> nat \<Rightarrow> pyval \<Rightarrow> unit m" where
  "complete_learning_session en session_id topic reason status ic qc ni error =
     db_execute en ''complete_learning_session''
       (sql_complete_learning_session session_id topic reason status ic qc ni error)"

subsection \<open>Reads\<close>

text \<open>
  The five \<^verbatim>\<open>SELECT\<close>s of the topic chooser. Their rows go into the prompt only, and
  the model's reply is a parameter, so a read is modelled by its place in the trace and
  by whether it raises.
\<close>

definition db_read :: "env \<Rightarrow> string \<Rightarrow> unit m" where
  "db_read en name = db_execute en name (\<lambda>now d. Inr ((), d))"

section \<open>Web search and content fetching\<close>

definition MAX_SEARCH_QUERIES :: int where
  "MAX_SEARCH_QUERIES = 3"

definition MAX_RESULTS_PER_QUERY :: int where
  "MAX_RESULTS_PER_QUERY = 3"

definition MAX_CONTENT_PER_PAGE :: int where
  "MAX_CONTENT_PER_PAGE = 4000"

definition LEARNING_MODEL :: string where
  "LEARNING_MODEL = ''claude-sonnet-4-20250514''"

definition REFLECTION_MODEL :: string where
  "REFLECTION_MODEL = ''claude-sonnet-4-20250514''"

text \<open>The dict built from one provider row.\<close>

definition search_hit :: "(string \<times> string) list \<Rightarrow> (string \<times> string) list" where
  "search_hit r =
     [(''url'', dict_get r ''href'' (dict_get r ''link'' [])),
      (''title'', dict_get r ''title'' []),
      (''snippet'', dict_get r ''body'' (dict_get r ''snippet'' []))]"

text \<open>\<^verbatim>\<open>search_web\<close>: any exception of the provider gives the empty list.\<close>

definition search_web :: "env \<Rightarrow> pyval \<Rightarrow> int \<Rightarrow> (string \<times> string) list list m" where
  "search_web en query max_results w =
     (let tr = trace w @ [ESearch query max_results] in
      case ddgs_text en tr of
        Inl e \<Rightarrow> (Inr [], w\<lparr>trace := tr\<rparr>)
      | Inr rows \<Rightarrow> (Inr (map search_hit rows), w\<lparr>trace := tr\<rparr>))"

text \<open>The clean-up of the extracted text: the stripped non-blank lines, joined.\<close>

definition clean_text :: "string \<Rightarrow> string" where
  "clean_text text =
     py_join [CHR 0x0A]
       (map py_strip (filter (\<lambda>line. py_strip line \<noteq> []) (py_split text [CHR 0x0A])))"

definition truncate_text :: "string \<Rightarrow> int \<Rightarrow> string" where
  "truncate_text text max_length =
     (if int (length text) > max_length then py_slice_to text max_length else text)"

text \<open>
  \<^verbatim>\<open>fetch_page_content\<close>: one GET; \<^verbatim>\<open>raise_for_status\<close> raises on a 4xx or 5xx
  status; any exception gives \<open>None\<close>.
\<close>

definition fetch_page_content :: "env \<Rightarrow> string \<Rightarrow> int \<Rightarrow> string option m" where
  "fetch_page_content en url max_length w =
     (let tr = trace w @ [EFetch url]; w' = w\<lparr>trace := tr\<rparr> in
      case requests_get en tr of
        Inl e \<Rightarrow> (Inr None, w')
      | Inr (status, body) \<Rightarrow>
          if 400 \<le> status \<and> status < 600 then (Inr None, w')
          else
            (case html2text_handle en body of
               Inl e \<Rightarrow> (Inr None, w')
             | Inr text \<Rightarrow> (Inr (Some (truncate_text (clean_text text) max_length)), w')))"

section \<open>Research runner\<close>

record research_item =
  it_query :: pyval
  it_url :: string
  it_title :: string
  it_snippet :: string
  it_content :: "string option"

text \<open>The inner loop of \<^verbatim>\<open>perform_research\<close>, over the top results of one query.\<close>

fun research_results_loop ::
  "env \<Rightarrow> pyval \<Rightarrow> pyval \<Rightarrow> (string \<times> string) list list \<Rightarrow> research_item list \<Rightarrow> research_item list m" where
  "research_results_loop en query request_id [] all_results = ret all_results"
| "research_results_loop en query request_id (result # rest) all_results =
     (let url = dict_get result ''url'' [] in
      if url = [] then research_results_loop en query request_id rest all_results
      else
        bind (fetch_page_content en url MAX_CONTENT_PER_PAGE) (\<lambda>content.
          let result_data =
                \<lparr>it_query = query, it_url = url,
                 it_title = dict_get result ''title'' [],
                 it_snippet = dict_get result ''snippet'' [],
                 it_content = content\<rparr>
          in
          bind (if py_truthy request_id
                then save_research_result en request_id query url
                       (dict_get result ''title'' []) (dict_get result ''snippet'' [])
                       content ''article'' PNone
                else ret ()) (\<lambda>u.
            research_results_loop en query request_id rest (all_results @ [result_data]))))"

text \<open>The outer loop, over the queries.\<close>

fun research_queries_loop ::
  "env \<Rightarrow> pyval \<Rightarrow> pyval list \<Rightarrow> research_item list \<Rightarrow> research_item list m" where
  "research_queries_loop en request_id [] all_results = ret all_results"
| "research_queries_loop en request_id (query # qs) all_results =
     bind (search_web en query MAX_RESULTS_PER_QUERY) (\<lambda>results.
       bind (research_results_loop en query request_id (py_slice_to results 2) all_results)
         (\<lambda>all_results'. research_queries_loop en request_id qs all_results'))"

definition perform_research :: "env \<Rightarrow> pyval \<Rightarrow> pyval \<Rightarrow> research_item list m" where
  "perform_research en queries request_id =
     bind (lift (py_slice_iter queries MAX_SEARCH_QUERIES)) (\<lambda>qs.
       research_queries_loop en request_id qs [])"

section \<open>Topic chooser and reflector\<close>

definition get_client :: "env \<Rightarrow> unit m" where
  "get_client en w =
     (if client w then (Inr (), w)
      else
        (let tr = trace w @ [EClient] in
         case anthropic_client en tr of
           Some e \<Rightarrow> (Inl e, w\<lparr>trace := tr\<rparr>)
         | None \<Rightarrow> (Inr (), w\<lparr>trace := tr, client := True\<rparr>)))"

text \<open>
  \<^verbatim>\<open>client.messages.create\<close>: the answer is the list of the texts of the reply's
  content blocks, or an exception (rendering the prompt from the rows read is part of
  this step).
\<close>

definition client_messages_create :: "env \<Rightarrow> string \<Rightarrow> nat \<Rightarrow> string list m" where
  "client_messages_create en model max_tokens w =
     (let tr = trace w @ [ELlm model max_tokens] in (messages_create en tr, w\<lparr>trace := tr\<rparr>))"

definition sum_bind :: "exn + 'a \<Rightarrow> ('a \<Rightarrow> exn + 'b) \<Rightarrow> exn + 'b" where
  "sum_bind r k = (case r of Inl e \<Rightarrow> Inl e | Inr x \<Rightarrow> k x)"

definition py_index :: "'a list \<Rightarrow> nat \<Rightarrow> exn + 'a" where
  "py_index xs i =
     (if i < length xs then Inr (xs ! i) else Inl (Exn ''IndexError'' ''list index out of range''))"

definition fence :: string where
  "fence = [CHR 0x60, CHR 0x60, CHR 0x60]"

definition fence_json :: string where
  "fence_json = fence @ ''json''"

text \<open>The payload of a reply: what a fenced code block holds, else the whole reply.\<close>

definition extract_payload :: "string \<Rightarrow> exn + string" where
  "extract_payload content =
     (if py_contains fence_json content then
        sum_bind (py_index (py_split content fence_json) 1) (\<lambda>a. py_index (py_split a fence) 0)
      else if py_contains fence content then
        sum_bind (py_index (py_split content fence) 1) (\<lambda>a. py_index (py_split a fence) 0)
      else Inr content)"

text \<open>
  The body of the \<^verbatim>\<open>try\<close> that both functions share, word for word:
  \<^verbatim>\<open>response.content[0].text\<close>, the payload, \<^verbatim>\<open>json.loads(content.strip())\<close>.
\<close>

definition parse_json_reply :: "env \<Rightarrow> string list \<Rightarrow> exn + pyval" where
  "parse_json_reply en blocks =
     sum_bind (py_index blocks 0) (\<lambda>content.
       sum_bind (extract_payload content) (\<lambda>payload. json_loads en (py_strip payload)))"

fun exn_class :: "exn \<Rightarrow> string" where
  "exn_class (Exn c m) = c"

text \<open>\<^verbatim>\<open>except (json.JSONDecodeError, IndexError)\<close>.\<close>

definition parse_error_caught :: "exn \<Rightarrow> bool" where
  "parse_error_caught e = (exn_class e = ''JSONDecodeError'' \<or> exn_class e = ''IndexError'')"

definition fallback_topic_choice :: pyval where
  "fallback_topic_choice =
     PDict [(''choice_type'', PStr ''new_topic''),
            (''topic'', PStr ''Python best practices 2026''),
            (''search_queries'',
               PList [PStr ''Python best practices 2026'',
                      PStr ''modern Python development patterns'']),
            (''why_now'', PStr ''Fallback topic for continued learning''),
            (''hoping_to_learn'', PStr ''Current Python development standards'')]"

definition topic_choice_of_reply :: "env \<Rightarrow> string list \<Rightarrow> exn + pyval" where
  "topic_choice_of_reply en response =
     (case parse_json_reply en response of
        Inr v \<Rightarrow> Inr v
      | Inl e \<Rightarrow> if parse_error_caught e then Inr fallback_topic_choice else Inl e)"

definition choose_learning_topic :: "env \<Rightarrow> pyval m" where
  "choose_learning_topic en =
     bind (get_client en) (\<lambda>u.
     bind (db_read en ''get_learning_interests'') (\<lambda>u.
     bind (db_read en ''get_pending_research'') (\<lambda>u.
     bind (db_read en ''get_user_context'') (\<lambda>u.
     bind (db_read en ''get_projects'') (\<lambda>u.
     bind (db_read en ''get_recent_insights'') (\<lambda>u.
     bind (client_messages_create en LEARNING_MODEL 1000) (\<lambda>response.
       lift (topic_choice_of_reply en response))))))))"

definition fallback_reflection :: pyval where
  "fallback_reflection =
     PDict [(''summary'', PStr ''Research completed but reflection parsing failed.''),
            (''key_insights'', PList []),
            (''new_questions'', PList []),
            (''confidence'', PStr ''low''),
            (''applicable_to'', PList []),
            (''new_interest_sparked'', PNone)]"

definition reflection_of_reply :: "env \<Rightarrow> string list \<Rightarrow> exn + pyval" where
  "reflection_of_reply en response =
     (case parse_json_reply en response of
        Inr v \<Rightarrow> Inr v
      | Inl e \<Rightarrow> if parse_error_caught e then Inr fallback_reflection else Inl e)"

definition reflect_on_learning :: "env \<Rightarrow> pyval \<Rightarrow> research_item list \<Rightarrow> pyval \<Rightarrow> pyval m" where
  "reflect_on_learning en topic results hoping_to_learn =
     bind (get_client en) (\<lambda>u.
     bind (client_messages_create en REFLECTION_MODEL 1500) (\<lambda>response.
       lift (reflection_of_reply en response)))"

section \<open>The learning session\<close>

text \<open>
  \<^verbatim>\<open>run_learning_session\<close>, called with a \<^verbatim>\<open>ClaudeLearning\<close> object as both of its
  callers do. The body of its \<^verbatim>\<open>try\<close> is cut at the call of
  \<^verbatim>\<open>perform_research\<close>: what comes before, the early return on no results, and the
  rest. What is known after the first part:
\<close>

record session_ctx =
  c_session_id :: int
  c_topic_choice :: pyval
  c_topic :: pyval
  c_queries :: pyval
  c_request_id :: pyval
  c_interest_id :: pyval

text \<open>\<^verbatim>\<open>d[k]\<close> on any value, for a string key.\<close>

fun py_getitem :: "pyval \<Rightarrow> string \<Rightarrow> exn + pyval" where
  "py_getitem (PDict d) k =
     (case map_of d k of None \<Rightarrow> Inl (Exn ''KeyError'' (quoted k)) | Some v \<Rightarrow> Inr v)"
| "py_getitem v k =
     Inl (Exn ''TypeError'' (quoted (type_name v) @ '' object is not subscriptable''))"

text \<open>What an f-string puts in for a value.\<close>

definition py_format :: "env \<Rightarrow> pyval \<Rightarrow> string" where
  "py_format en v = (case v of PStr s \<Rightarrow> s | _ \<Rightarrow> str_builtin en v)"

text \<open>Start the session, choose the topic, create or use the research request.\<close>

definition session_setup :: "env \<Rightarrow> session_ctx m" where
  "session_setup en =
     bind (start_learning_session en ''autonomous'') (\<lambda>session_id.
     bind (choose_learning_topic en) (\<lambda>topic_choice.
     bind (lift (py_get topic_choice ''topic'' (PStr ''Unknown''))) (\<lambda>topic.
     bind (lift (py_get topic_choice ''search_queries'' (PList []))) (\<lambda>queries.
     bind (lift (py_get topic_choice ''research_id'' PNone)) (\<lambda>research_id.
     bind (lift (py_get topic_choice ''interest_id'' PNone)) (\<lambda>interest_id.
     bind (if \<not> py_truthy research_id
           then
             bind (lift (py_get topic_choice ''why_now'' PNone)) (\<lambda>why.
             bind (lift (py_get topic_choice ''hoping_to_learn'' PNone)) (\<lambda>hoping.
             bind (queue_research en topic queries why hoping (PStr ''medium'') interest_id PNone)
               (\<lambda>k. ret (PInt k))))
           else ret research_id) (\<lambda>request_id.
     bind (update_research_status en request_id ''in_progress'' PNone) (\<lambda>u.
       ret \<lparr>c_session_id = session_id, c_topic_choice = topic_choice, c_topic = topic,
            c_queries = queries, c_request_id = request_id,
            c_interest_id = interest_id\<rparr>))))))))"

text \<open>The branch \<^verbatim>\<open>if not results\<close>.\<close>

definition session_no_results :: "env \<Rightarrow> session_ctx \<Rightarrow> (string \<times> pyval) list m" where
  "session_no_results en c =
     bind (update_research_status en (c_request_id c) ''failed'' (PStr ''No results found''))
       (\<lambda>u.
     bind (lift (py_get (c_topic_choice c) ''why_now'' (PStr []))) (\<lambda>why_now.
     bind (complete_learning_session en (c_session_id c) (c_topic c) why_now ''failed'' 0 0 0
             (PStr ''No research results'')) (\<lambda>u.
       ret [(''status'', PStr ''failed''),
            (''error'', PStr ''No results found''),
            (''topic'', c_topic c)])))"

text \<open>Reflect, record the insight, update interests, complete request and session.\<close>

definition session_reflect ::
  "env \<Rightarrow> session_ctx \<Rightarrow> research_item list \<Rightarrow> (string \<times> pyval) list m" where
  "session_reflect en c results =
     bind (lift (py_get (c_topic_choice c) ''hoping_to_learn'' PNone)) (\<lambda>hoping.
     bind (reflect_on_learning en (c_topic c) results hoping) (\<lambda>reflection.
     bind (lift (py_get reflection ''summary'' (PStr []))) (\<lambda>summary.
     bind (lift (py_get reflection ''key_insights'' (PList []))) (\<lambda>key_insights.
     bind (lift (py_get reflection ''new_questions'' (PList []))) (\<lambda>new_questions.
     bind (lift (py_get reflection ''confidence'' (PStr ''medium''))) (\<lambda>confidence.
     bind (record_insight en (c_topic c) summary key_insights new_questions confidence
             (PList (map (\<lambda>r. PDict [(''url'', PStr (it_url r)), (''title'', PStr (it_title r))])
                       results))
             (c_request_id c) (c_interest_id c)) (\<lambda>insight_id.
     bind (if py_truthy (c_interest_id c)
           then update_interest_insights en (c_interest_id c) key_insights new_questions
           else ret ()) (\<lambda>u.
     bind (lift (py_get reflection ''new_interest_sparked'' PNone)) (\<lambda>new_interest.
     bind (if py_truthy new_interest
           then bind (lift (py_get new_interest ''topic'' PNone)) (\<lambda>t. ret (py_truthy t))
           else ret False) (\<lambda>sparked.
     bind (if sparked
           then
             bind (lift (py_getitem new_interest ''topic'')) (\<lambda>new_topic.
             bind (lift (py_get new_interest ''why'' (PStr ''Sparked by research''))) (\<lambda>why.
             bind (add_learning_interest en new_topic why
                     (PStr (''Research on: '' @ py_format en (c_topic c))) (PInt 5) PNone)
               (\<lambda>k. ret (1::nat))))
           else ret 0) (\<lambda>new_interest_count.
     bind (update_research_status en (c_request_id c) ''completed'' PNone) (\<lambda>u.
     bind (lift (py_get (c_topic_choice c) ''why_now'' (PStr []))) (\<lambda>why_now.
     bind (lift (py_len key_insights)) (\<lambda>insights_count.
     bind (lift (py_len new_questions)) (\<lambda>questions_count.
     bind (complete_learning_session en (c_session_id c) (c_topic c) why_now ''completed''
             insights_count questions_count new_interest_count PNone) (\<lambda>u.
     bind (if py_truthy new_interest then lift (py_get new_interest ''topic'' PNone)
           else ret PNone) (\<lambda>new_interest_topic.
       ret [(''status'', PStr ''completed''),
            (''session_id'', PInt (c_session_id c)),
            (''topic'', c_topic c),
            (''insights'', key_insights),
            (''new_questions'', new_questions),
            (''summary'', summary),
            (''new_interest'', new_interest_topic)])))))))))))))))))"

text \<open>The body of the \<^verbatim>\<open>try\<close>.\<close>

definition run_learning_session_try :: "env \<Rightarrow> (string \<times> pyval) list m" where
  "run_learning_session_try en =
     bind (session_setup en) (\<lambda>c.
     bind (perform_research en (c_queries c) (c_request_id c)) (\<lambda>results.
       if results = [] then session_no_results en c else session_reflect en c results))"

text \<open>With its \<^verbatim>\<open>except Exception\<close>: the handler only builds the result.\<close>

definition run_learning_session :: "env \<Rightarrow> world \<Rightarrow> (string \<times> pyval) list \<times> world" where
  "run_learning_session en w =
     (case run_learning_session_try en w of
        (Inr result, w') \<Rightarrow> (result, w')
      | (Inl e, w') \<Rightarrow> ([(''status'', PStr ''error''), (''error'', PStr (exn_str e))], w'))"

section \<open>Notions the properties are stated with\<close>

text \<open>The interest lifecycle and its order.\<close>

definition lifecycle_status :: "string \<Rightarrow> bool" where
  "lifecycle_status s = (s = ''curious'' \<or> s = ''exploring'' \<or> s = ''deepening'')"

definition status_rank :: "string \<Rightarrow> nat" where
  "status_rank s = (if s = ''curious'' then 0 else if s = ''exploring'' then 1 else 2)"

text \<open>
  A text made of non-blank lines only, each with no whitespace at either end: it is
  empty, or splitting it at newlines gives such lines.
\<close>

definition stripped_lines :: "string \<Rightarrow> bool" where
  "stripped_lines s =
     (s = [] \<or> list_all (\<lambda>l. l \<noteq> [] \<and> py_strip l = l) (py_split s [CHR 0x0A]))"

text \<open>
  For each search call of a trace, in order, the number of page fetches made before
  the next search call.
\<close>

fun fetches_per_search :: "event list \<Rightarrow> nat list" where
  "fetches_per_search [] = []"
| "fetches_per_search (e # es) =
     (if is_search e
      then length (filter is_fetch (takeWhile (\<lambda>x. \<not> is_search x) es)) # fetches_per_search es
      else fetches_per_search es)"

text \<open>The events a computation adds to the trace of the world it starts in.\<close>

definition new_events :: "world \<Rightarrow> world \<Rightarrow> event list" where
  "new_events w w' = drop (length (trace w)) (trace w')"

section \<open>Concrete worlds\<close>

text \<open>
  An outside where no call raises, the search finds nothing, every page reads
  \<^verbatim>\<open>ab cd\<close>, the model's reply is not JSON (\<^verbatim>\<open>json.loads\<close> raises its decode
  error) and the database rejects an id that is not an integer.
\<close>

definition quiet_env :: env where
  "quiet_env =
     \<lparr>anthropic_client = (\<lambda>tr. None),
      db_fault = (\<lambda>tr. None),
      current_timestamp = length,
      messages_create = (\<lambda>tr. Inr [''no json here'']),
      ddgs_text = (\<lambda>tr. Inr []),
      requests_get = (\<lambda>tr. Inr (200, ''ab cd'')),
      html2text_handle = Inr,
      json_loads = (\<lambda>s. Inl (Exn ''JSONDecodeError'' ''Expecting value'')),
      str_builtin = (\<lambda>v. ''?''),
      pg_id_param = (\<lambda>v. Inl (Exn ''DatabaseError'' ''invalid input syntax for type integer''))\<rparr>"

text \<open>The same outside with no API key to be found.\<close>

definition no_key_env :: env where
  "no_key_env =
     quiet_env\<lparr>anthropic_client :=
       (\<lambda>tr. Some (Exn ''ValueError'' ''ANTHROPIC_API_KEY not found in environment or secrets''))\<rparr>"

text \<open>
  An outside whose search provider gives three rows in both naming conventions, the
  last without a URL.
\<close>

definition provider_rows :: "(string \<times> string) list list" where
  "provider_rows =
     [[(''title'', ''A''), (''href'', ''http://a''), (''body'', ''sa'')],
      [(''title'', ''B''), (''link'', ''http://b''), (''snippet'', ''sb'')],
      [(''title'', ''C'')]]"

definition busy_env :: env where
  "busy_env = quiet_env\<lparr>ddgs_text := (\<lambda>tr. Inr provider_rows)\<rparr>"

definition empty_db :: db where
  "empty_db =
     \<lparr>learning_interests = Map.empty, interest_seq = 0,
      research_requests = Map.empty, request_seq = 0,
      research_results = [],
      learning_insights = Map.empty, insight_seq = 0,
      learning_sessions = Map.empty, session_seq = 0\<rparr>"

definition fresh_world :: world where
  "fresh_world = \<lparr>store = empty_db, client = False, trace = []\<rparr>"

definition sample_interest :: interest_row where
  "sample_interest =
     \<lparr>i_topic = PStr ''rust'', why_interested = PStr ''speed'', sparked_by = PNone,
      i_priority = PInt 5, tags = PList [], i_status = ''curious'',
      insights_gained = [PStr ''i1''], remaining_questions = PList [PStr ''q1''],
      last_explored_at = None\<rparr>"

definition interest_world :: world where
  "interest_world =
     \<lparr>store = empty_db\<lparr>learning_interests := [1 \<mapsto> sample_interest], interest_seq := 1\<rparr>,
      client = False, trace = []\<rparr>"

text \<open>Four queries, of which only three are processed.\<close>

definition four_queries :: pyval where
  "four_queries = PList [PStr ''X'', PStr ''Y'', PStr ''Z'', PStr ''W'']"

section \<open>Properties of computations\<close>

text \<open>A computation that leaves the table of sessions as it is, however it ends.\<close>

definition keeps_sessions :: "'a m \<Rightarrow> bool" where
  "keeps_sessions f =
     (\<forall>w r w'. f w = (r, w') \<longrightarrow> learning_sessions (store w') = learning_sessions (store w))"

text \<open>A computation that leaves the table of sessions as it is whenever it raises.\<close>

definition raising_keeps_sessions :: "'a m \<Rightarrow> bool" where
  "raising_keeps_sessions f =
     (\<forall>w e w'. f w = (Inl e, w') \<longrightarrow> learning_sessions (store w') = learning_sessions (store w))"

text \<open>A computation all of whose results satisfy \<open>P\<close>.\<close>

definition returns :: "('a \<Rightarrow> bool) \<Rightarrow> 'a m \<Rightarrow> bool" where
  "returns P f = (\<forall>w x w'. f w = (Inr x, w') \<longrightarrow> P x)"


text \<open>The three shapes of the dict that \<^verbatim>\<open>run_learning_session\<close> returns.\<close>

definition completed_result :: "(string \<times> pyval) list \<Rightarrow> bool" where
  "completed_result res =
     (map_of res ''status'' = Some (PStr ''completed'')
      \<and> map fst res = [''status'', ''session_id'', ''topic'', ''insights'', ''new_questions'',
                        ''summary'', ''new_interest''])"

definition failed_result :: "(string \<times> pyval) list \<Rightarrow> bool" where
  "failed_result res =
     (map_of res ''status'' = Some (PStr ''failed'')
      \<and> map fst res = [''status'', ''error'', ''topic''])"

definition error_result :: "(string \<times> pyval) list \<Rightarrow> bool" where
  "error_result res =
     (map_of res ''status'' = Some (PStr ''error'')
      \<and> map fst res = [''status'', ''error''])"




text \<open>An outside whose search provider gives five rows whatever bound it is given.\<close>

definition five_rows :: "(string \<times> string) list list" where
  "five_rows =
     [[(''title'', ''A''), (''href'', ''http://a''), (''body'', ''sa'')],
      [(''title'', ''B''), (''href'', ''http://b''), (''body'', ''sb'')],
      [(''title'', ''C''), (''href'', ''http://c''), (''body'', ''sc'')],
      [(''title'', ''D''), (''href'', ''http://d''), (''body'', ''sd'')],
      [(''title'', ''E''), (''href'', ''http://e''), (''body'', ''se'')]]"

definition five_rows_env :: env where
  "five_rows_env = quiet_env\<lparr>ddgs_text := (\<lambda>tr. Inr five_rows)\<rparr>"



section \<open>Learning interests: status and lists\<close>

lemma update_interest_insights_row:
  assumes "update_interest_insights en (PInt k) (PList ins) qs w = (Inr u, w')"
    and "learning_interests (store w) k = Some r"
  shows "learning_interests (store w') k =
           Some (interest_update_row (PList ins) (if py_truthy qs then Some qs else None)
                   (length ins)
                   (current_timestamp en (trace w @ [EDb ''update_interest_insights''])) r)"
  using assms
  by (auto simp: update_interest_insights_def bind_def lift_def db_execute_def Let_def
        sql_update_interest_def split: option.splits sum.splits prod.splits)

lemma quiet_update:
  "update_interest_insights quiet_env (PInt 1) (PList [PStr ''i2'']) (PList [PStr ''q2''])
     interest_world =
     (Inr (), interest_world\<lparr>trace := [EDb ''update_interest_insights''],
        store := (store interest_world)\<lparr>learning_interests := [1 \<mapsto>
           sample_interest\<lparr>insights_gained := [PStr ''i1'', PStr ''i2''],
             remaining_questions := PList [PStr ''q2''], last_explored_at := Some 1,
             i_status := ''exploring''\<rparr>]\<rparr>\<rparr>)"
  by (simp add: update_interest_insights_def bind_def lift_def db_execute_def Let_def
        sql_update_interest_def quiet_env_def interest_world_def empty_db_def
        sample_interest_def interest_update_row_def)

lemma interest_world_row: "learning_interests (store interest_world) 1 = Some sample_interest"
  by (simp add: interest_world_def)

text \<open>
  C4. A successful \<^verbatim>\<open>update_interest_insights\<close> on an existing interest moves the
  status \<^verbatim>\<open>curious\<close> to \<^verbatim>\<open>exploring\<close>; from any other status it sets \<^verbatim>\<open>deepening\<close>
  when the insights already held plus the ones supplied are more than 10, and leaves
  the status as it is otherwise. The status is never \<^verbatim>\<open>curious\<close> afterwards, so every
  call after the first falls under the second rule; and within
  curious, exploring, deepening the status never moves back.
\<close>

theorem update_interest_insights_status:
  assumes "update_interest_insights en (PInt k) (PList ins) qs w = (Inr u, w')"
    and "learning_interests (store w) k = Some r"
  shows "\<exists>r'. learning_interests (store w') k = Some r'
           \<and> (i_status r = ''curious'' \<longrightarrow> i_status r' = ''exploring'')
           \<and> (i_status r \<noteq> ''curious'' \<and> 10 < length (insights_gained r) + length ins
                \<longrightarrow> i_status r' = ''deepening'')
           \<and> (i_status r \<noteq> ''curious'' \<and> length (insights_gained r) + length ins \<le> 10
                \<longrightarrow> i_status r' = i_status r)
           \<and> i_status r' \<noteq> ''curious''
           \<and> (lifecycle_status (i_status r)
                \<longrightarrow> lifecycle_status (i_status r')
                  \<and> status_rank (i_status r) \<le> status_rank (i_status r'))"
  using update_interest_insights_row[OF assms]
  by (auto simp: interest_update_row_def status_rank_def lifecycle_status_def)

theorem update_interest_insights_status_witness:
  "learning_interests (store interest_world) 1 = Some sample_interest
   \<and> i_status sample_interest = ''curious''
   \<and> lifecycle_status (i_status sample_interest)
   \<and> (\<exists>r'. learning_interests (store (snd (update_interest_insights quiet_env (PInt 1)
              (PList [PStr ''i2'']) (PList [PStr ''q2'']) interest_world))) 1 = Some r'
          \<and> i_status r' = ''exploring''
          \<and> status_rank (i_status sample_interest) \<le> status_rank (i_status r'))"
proof -
  have b: "i_status sample_interest = ''curious''"
    by (simp add: sample_interest_def)
  have c: "lifecycle_status (i_status sample_interest)"
    by (simp add: b lifecycle_status_def)
  from update_interest_insights_status[OF quiet_update interest_world_row] b c
  show ?thesis
    using interest_world_row by (auto simp: quiet_update)
qed

text \<open>
  C5, as the claim has it, fails: an interest holding the question \<^verbatim>\<open>q1\<close>, updated
  with the question \<^verbatim>\<open>q2\<close>, holds \<^verbatim>\<open>q2\<close> alone, not \<^verbatim>\<open>q1, q2\<close>.
\<close>

theorem update_interest_insights_questions_counterexample:
  "fst (update_interest_insights quiet_env (PInt 1) (PList [PStr ''i2'']) (PList [PStr ''q2''])
          interest_world) = Inr ()
   \<and> map_option remaining_questions (learning_interests (store interest_world) 1)
       = Some (PList [PStr ''q1''])
   \<and> map_option remaining_questions
        (learning_interests (store (snd (update_interest_insights quiet_env (PInt 1)
            (PList [PStr ''i2'']) (PList [PStr ''q2'']) interest_world))) 1)
       = Some (PList [PStr ''q2''])
   \<and> PList [PStr ''q2''] \<noteq> PList [PStr ''q1'', PStr ''q2'']"
  by (simp add: quiet_update) (simp add: interest_world_def sample_interest_def)

text \<open>
  C5, amended. A successful \<^verbatim>\<open>update_interest_insights\<close> on an existing interest
  appends the supplied insights to \<^verbatim>\<open>insights_gained\<close>, keeping what was there;
  replaces \<^verbatim>\<open>remaining_questions\<close> by the supplied questions when there are any and
  leaves it as it is when there are none; and sets the last-explored time to the time of
  the update. No other interest changes.
\<close>

theorem update_interest_insights_lists:
  assumes "update_interest_insights en (PInt k) (PList ins) qs w = (Inr u, w')"
    and "learning_interests (store w) k = Some r"
  shows "\<exists>r'. learning_interests (store w') k = Some r'
           \<and> insights_gained r' = insights_gained r @ ins
           \<and> remaining_questions r' = (if py_truthy qs then qs else remaining_questions r)
           \<and> last_explored_at r' =
               Some (current_timestamp en (trace w @ [EDb ''update_interest_insights'']))
           \<and> (\<forall>j. j \<noteq> k \<longrightarrow>
                 learning_interests (store w') j = learning_interests (store w) j)"
proof -
  have others: "\<forall>j. j \<noteq> k \<longrightarrow> learning_interests (store w') j = learning_interests (store w) j"
    using assms
    by (auto simp: update_interest_insights_def bind_def lift_def db_execute_def Let_def
          sql_update_interest_def split: option.splits sum.splits prod.splits)
  show ?thesis
    using update_interest_insights_row[OF assms] others
    by (auto simp: interest_update_row_def)
qed

theorem update_interest_insights_lists_witness:
  "learning_interests (store interest_world) 1 = Some sample_interest
   \<and> (\<exists>r'. learning_interests (store (snd (update_interest_insights quiet_env (PInt 1)
              (PList [PStr ''i2'']) (PList [PStr ''q2'']) interest_world))) 1 = Some r'
          \<and> insights_gained r' = [PStr ''i1'', PStr ''i2'']
          \<and> remaining_questions r' = PList [PStr ''q2'']
          \<and> last_explored_at r' = Some 1)"
proof -
  have t: "current_timestamp quiet_env (trace interest_world @ [EDb ''update_interest_insights'']) = 1"
    by (simp add: quiet_env_def interest_world_def)
  from update_interest_insights_lists[OF quiet_update interest_world_row] t
  show ?thesis
    using interest_world_row by (auto simp: quiet_update sample_interest_def)
qed

section \<open>Content fetcher\<close>

lemma dropWhile_fix: "xs = [] \<or> \<not> P (hd xs) \<Longrightarrow> dropWhile P xs = xs"
  by (cases xs) auto

lemma hd_dropWhile_not: "dropWhile P xs \<noteq> [] \<Longrightarrow> \<not> P (hd (dropWhile P xs))"
  by (simp add: hd_dropWhile)

lemma py_strip_idem: "py_strip (py_strip s) = py_strip s"
proof -
  define d where "d = dropWhile is_space s"
  define t where "t = dropWhile is_space (rev d)"
  have t_fix: "dropWhile is_space t = t"
    unfolding t_def by simp
  have "rev t = [] \<or> \<not> is_space (hd (rev t))"
  proof (cases "rev t = []")
    case True
    then show ?thesis by simp
  next
    case False
    obtain p where p: "rev d = p @ t"
      unfolding t_def by (metis takeWhile_dropWhile_id)
    then have "d = rev t @ rev p"
      by (metis rev_append rev_rev_ident)
    then have hd_eq: "hd (rev t) = hd d" and dne: "d \<noteq> []"
      using False by auto
    have "\<not> is_space (hd d)"
      using dne unfolding d_def by (rule hd_dropWhile_not)
    then show ?thesis using hd_eq by simp
  qed
  then have "dropWhile is_space (rev t) = rev t"
    by (rule dropWhile_fix)
  then show ?thesis
    unfolding py_strip_def using t_fix by (simp add: d_def t_def)
qed

lemma set_py_strip: "set (py_strip s) \<subseteq> set s"
proof -
  have "set (dropWhile is_space (rev (dropWhile is_space s))) \<subseteq> set (rev (dropWhile is_space s))"
    by (rule set_dropWhileD[THEN subsetI])
  also have "\<dots> \<subseteq> set s"
    using set_dropWhileD by fastforce
  finally show ?thesis by (simp add: py_strip_def)
qed

lemma split_aux_char_free_elem:
  "c \<notin> set cur \<Longrightarrow> l \<in> set (py_split_aux [c] cur s) \<Longrightarrow> c \<notin> set l"
proof (induction s arbitrary: cur l)
  case Nil
  then show ?case by simp
next
  case (Cons a s)
  show ?case
  proof (cases "a = c")
    case True
    then have "l = rev cur \<or> l \<in> set (py_split_aux [c] [] s)"
      using Cons.prems(2) by simp
    then show ?thesis
      using Cons.prems(1) Cons.IH[of "[]" l] by auto
  next
    case False
    then have "l \<in> set (py_split_aux [c] (a # cur) s)"
      using Cons.prems(2) by simp
    then show ?thesis
      using False Cons.prems(1) Cons.IH[of "a # cur" l] by auto
  qed
qed

lemma split_aux_char_free:
  "c \<notin> set cur \<Longrightarrow> \<forall>l \<in> set (py_split_aux [c] cur s). c \<notin> set l"
  using split_aux_char_free_elem by blast

lemma split_aux_line:
  "c \<notin> set l \<Longrightarrow> py_split_aux [c] cur (l @ c # rest) = (rev cur @ l) # py_split_aux [c] [] rest"
  by (induction l arbitrary: cur) auto

lemma split_aux_last:
  "c \<notin> set l \<Longrightarrow> py_split_aux [c] cur l = [rev cur @ l]"
  by (induction l arbitrary: cur) auto

lemma split_join_gen:
  "sep = [c] \<Longrightarrow> ls \<noteq> [] \<Longrightarrow> \<forall>l \<in> set ls. c \<notin> set l \<Longrightarrow>
     py_split (py_join sep ls) sep = ls"
proof (induction sep ls rule: py_join.induct)
  case (1 sep)
  then show ?case by simp
next
  case (2 sep x)
  then show ?case by (simp add: py_split_def split_aux_last)
next
  case (3 sep x y ys)
  then show ?case
    by (simp add: py_split_def split_aux_line)
qed

lemma split_join:
  "ls \<noteq> [] \<Longrightarrow> \<forall>l \<in> set ls. c \<notin> set l \<Longrightarrow> py_split (py_join [c] ls) [c] = ls"
  by (rule split_join_gen) simp_all

lemma clean_text_lines: "stripped_lines (clean_text text)"
proof -
  define ls where
    "ls = map py_strip (filter (\<lambda>line. py_strip line \<noteq> []) (py_split text [CHR 0x0A]))"
  have clean: "clean_text text = py_join [CHR 0x0A] ls"
    by (simp add: clean_text_def ls_def)
  have ok: "\<forall>l \<in> set ls. l \<noteq> [] \<and> py_strip l = l"
    by (auto simp: ls_def py_strip_idem)
  have "\<forall>l \<in> set (py_split text [CHR 0x0A]). CHR 0x0A \<notin> set l"
    unfolding py_split_def by (rule split_aux_char_free) simp
  then have free: "\<forall>l \<in> set ls. CHR 0x0A \<notin> set l"
    using set_py_strip by (fastforce simp: ls_def)
  show ?thesis
  proof (cases "ls = []")
    case True
    then show ?thesis by (simp add: clean stripped_lines_def)
  next
    case False
    then have "py_split (clean_text text) [CHR 0x0A] = ls"
      unfolding clean using free by (rule split_join)
    then show ?thesis using ok by (simp add: stripped_lines_def list_all_iff)
  qed
qed

lemma truncate_text_length: "0 \<le> n \<Longrightarrow> int (length (truncate_text s n)) \<le> n"
  by (auto simp: truncate_text_def py_slice_to_def)

lemma truncate_text_whole: "int (length s) \<le> n \<Longrightarrow> truncate_text s n = s"
  by (simp add: truncate_text_def)

lemma truncate_text_prefix: "0 \<le> n \<Longrightarrow> truncate_text s n = take (nat n) s"
  by (auto simp: truncate_text_def py_slice_to_def)

text \<open>
  C8, amended. \<^verbatim>\<open>fetch_page_content\<close> never raises: it makes one fetch and returns.
  It returns \<open>None\<close> when the request raises, when the status is 4xx or 5xx, and
  when the conversion to text raises. Otherwise it returns the cleaned text cut to
  \<^verbatim>\<open>max_length\<close>: for a non-negative \<^verbatim>\<open>max_length\<close> that is the first
  \<^verbatim>\<open>max_length\<close> characters of the cleaned text, so no longer than \<^verbatim>\<open>max_length\<close>;
  and when the cleaned text fits, it is returned whole and consists of non-blank lines
  with no whitespace at either end.
\<close>

theorem fetch_page_content_never_raises:
  "\<exists>r. fetch_page_content en url max_length w = (Inr r, w\<lparr>trace := trace w @ [EFetch url]\<rparr>)
     \<and> (case requests_get en (trace w @ [EFetch url]) of
           Inl e \<Rightarrow> r = None
         | Inr (status, body) \<Rightarrow>
             if 400 \<le> status \<and> status < 600 then r = None
             else (case html2text_handle en body of
                     Inl e \<Rightarrow> r = None
                   | Inr text \<Rightarrow>
                       r = Some (truncate_text (clean_text text) max_length)
                       \<and> (0 \<le> max_length \<longrightarrow>
                            int (length (the r)) \<le> max_length
                            \<and> the r = take (nat max_length) (clean_text text))
                       \<and> (int (length (clean_text text)) \<le> max_length \<longrightarrow>
                            the r = clean_text text \<and> stripped_lines (the r))))"
  by (auto simp: fetch_page_content_def Let_def truncate_text_length truncate_text_whole
        truncate_text_prefix clean_text_lines split: sum.splits prod.splits)

lemma clean_ab_cd: "clean_text ''ab cd'' = ''ab cd''"
  by (simp add: clean_text_def py_split_def py_strip_def is_space_def)

lemma quiet_fetch:
  "fetch_page_content quiet_env u n fresh_world =
     (Inr (Some (truncate_text ''ab cd'' n)), fresh_world\<lparr>trace := [EFetch u]\<rparr>)"
  by (simp add: fetch_page_content_def Let_def quiet_env_def fresh_world_def clean_ab_cd)

text \<open>
  C8, as the claim has it, fails. With the page text \<^verbatim>\<open>ab cd\<close> and \<^verbatim>\<open>max_length\<close> 3 the
  function returns \<^verbatim>\<open>ab\<close> followed by a space: the cut falls inside a line and
  leaves whitespace at its end. With \<^verbatim>\<open>max_length\<close> -1 it returns the four
  characters \<^verbatim>\<open>ab c\<close>, more than \<^verbatim>\<open>max_length\<close>.
\<close>

theorem fetch_page_content_counterexample:
  "fst (fetch_page_content quiet_env ''http://a'' 3 fresh_world) = Inr (Some ''ab '')
   \<and> \<not> stripped_lines ''ab ''
   \<and> fst (fetch_page_content quiet_env ''http://a'' (- 1) fresh_world) = Inr (Some ''ab c'')
   \<and> \<not> int (length ''ab c'') \<le> - 1"
  by (simp add: quiet_fetch truncate_text_def py_slice_to_def stripped_lines_def py_split_def
        py_strip_def is_space_def)

theorem fetch_page_content_never_raises_witness:
  "(0::int) \<le> 4000 \<and> int (length (clean_text ''ab cd'')) \<le> 4000
   \<and> fetch_page_content quiet_env ''http://a'' 4000 fresh_world =
       (Inr (Some ''ab cd''), fresh_world\<lparr>trace := [EFetch ''http://a'']\<rparr>)
   \<and> stripped_lines ''ab cd''"
  using fetch_page_content_never_raises[of quiet_env "''http://a''" 4000 fresh_world]
  by (simp add: quiet_fetch clean_ab_cd truncate_text_def quiet_env_def fresh_world_def)

section \<open>Web search client\<close>

lemma search_hit_keys: "map fst (search_hit r) = [''url'', ''title'', ''snippet'']"
  by (simp add: search_hit_def)

text \<open>
  C9, as the claim has it, fails: asked for at most 2 results, a provider that returns
  five rows makes \<^verbatim>\<open>search_web\<close> return five dicts. The function hands
  \<^verbatim>\<open>max_results\<close> to the provider and never cuts the rows itself.
\<close>

theorem search_web_bound_counterexample:
  "ddgs_text five_rows_env (trace fresh_world @ [ESearch (PStr ''rust'') 2]) = Inr five_rows
   \<and> fst (search_web five_rows_env (PStr ''rust'') 2 fresh_world) = Inr (map search_hit five_rows)
   \<and> length (map search_hit five_rows) = 5
   \<and> \<not> int (length (map search_hit five_rows)) \<le> 2"
  by (simp add: search_web_def Let_def five_rows_env_def quiet_env_def fresh_world_def
        five_rows_def)

text \<open>
  C9, amended. \<^verbatim>\<open>search_web\<close> never raises: it makes one search and returns a list.
  When the provider raises, the list is empty. Otherwise it holds exactly one dict per
  row the provider returned, in the provider's order, so it is as long as the provider's
  answer. Each dict has exactly the keys url, title and snippet: url is the row's
  \<^verbatim>\<open>href\<close>, else its \<^verbatim>\<open>link\<close>, else empty; snippet is the row's \<^verbatim>\<open>body\<close>, else its
  \<^verbatim>\<open>snippet\<close>, else empty.
\<close>

theorem search_web_never_raises:
  "\<exists>hits. search_web en query max_results w =
            (Inr hits, w\<lparr>trace := trace w @ [ESearch query max_results]\<rparr>)
     \<and> (case ddgs_text en (trace w @ [ESearch query max_results]) of
           Inl e \<Rightarrow> hits = []
         | Inr rows \<Rightarrow> hits = map search_hit rows \<and> length hits = length rows)
     \<and> list_all (\<lambda>h. map fst h = [''url'', ''title'', ''snippet'']) hits
     \<and> (\<forall>r. map_of (search_hit r) ''url'' =
               Some (case map_of r ''href'' of
                       Some v \<Rightarrow> v
                     | None \<Rightarrow> (case map_of r ''link'' of Some v \<Rightarrow> v | None \<Rightarrow> []))
            \<and> map_of (search_hit r) ''title'' =
               Some (case map_of r ''title'' of Some v \<Rightarrow> v | None \<Rightarrow> [])
            \<and> map_of (search_hit r) ''snippet'' =
               Some (case map_of r ''body'' of
                       Some v \<Rightarrow> v
                     | None \<Rightarrow> (case map_of r ''snippet'' of Some v \<Rightarrow> v | None \<Rightarrow> [])))"
  by (auto simp: search_web_def Let_def search_hit_keys list_all_iff search_hit_def dict_get_def
        split: sum.splits option.splits)

lemma busy_search:
  "search_web busy_env q n fresh_world =
     (Inr (map search_hit provider_rows), fresh_world\<lparr>trace := [ESearch q n]\<rparr>)"
  by (simp add: search_web_def Let_def busy_env_def quiet_env_def fresh_world_def)

theorem search_web_never_raises_witness:
  "ddgs_text busy_env (trace fresh_world @ [ESearch (PStr ''rust'') 3]) = Inr provider_rows
   \<and> search_web busy_env (PStr ''rust'') 3 fresh_world =
       (Inr [[(''url'', ''http://a''), (''title'', ''A''), (''snippet'', ''sa'')],
             [(''url'', ''http://b''), (''title'', ''B''), (''snippet'', ''sb'')],
             [(''url'', []), (''title'', ''C''), (''snippet'', [])]],
        fresh_world\<lparr>trace := [ESearch (PStr ''rust'') 3]\<rparr>)
   \<and> length (map search_hit provider_rows) = length provider_rows"
  using search_web_never_raises[of busy_env "PStr ''rust''" 3 fresh_world]
  by (simp add: busy_search)
     (simp add: provider_rows_def search_hit_def dict_get_def busy_env_def quiet_env_def)

section \<open>Parsing the model's reply\<close>

lemma split_aux_nonempty: "py_split_aux sep cur s \<noteq> []"
  by (induction s arbitrary: cur) auto

lemma split_aux_two:
  "sep \<noteq> [] \<Longrightarrow> py_contains sep s \<Longrightarrow> 2 \<le> length (py_split_aux sep cur s)"
proof (induction s arbitrary: cur)
  case Nil
  then show ?case by simp
next
  case (Cons c cs)
  show ?case
  proof (cases "prefix sep (c # cs)")
    case True
    have "py_split_aux sep [] (drop (length sep - 1) cs) \<noteq> []"
      by (rule split_aux_nonempty)
    then have "1 \<le> length (py_split_aux sep [] (drop (length sep - 1) cs))"
      by (simp add: Suc_le_eq)
    then show ?thesis using True Cons.prems by simp
  next
    case False
    then show ?thesis using Cons by simp
  qed
qed

lemma fence_nonempty: "fence \<noteq> []" "fence_json \<noteq> []"
  by (simp_all add: fence_def fence_json_def)

lemma index_split_first: "\<exists>p. py_index (py_split a sep) 0 = Inr p"
  using split_aux_nonempty[of sep "[]" a] by (simp add: py_index_def py_split_def)

lemma index_split_second:
  "sep \<noteq> [] \<Longrightarrow> py_contains sep s \<Longrightarrow> \<exists>a. py_index (py_split s sep) 1 = Inr a"
  using split_aux_two[of sep s "[]"] by (simp add: py_index_def py_split_def)

lemma extract_payload_total: "\<exists>p. extract_payload content = Inr p"
proof (cases "py_contains fence_json content")
  case True
  then obtain a where "py_index (py_split content fence_json) 1 = Inr a"
    using index_split_second fence_nonempty by blast
  then show ?thesis
    using True index_split_first[of a fence] by (auto simp: extract_payload_def sum_bind_def)
next
  case False
  show ?thesis
  proof (cases "py_contains fence content")
    case True
    then obtain a where "py_index (py_split content fence) 1 = Inr a"
      using index_split_second fence_nonempty by blast
    then show ?thesis
      using True False index_split_first[of a fence]
      by (auto simp: extract_payload_def sum_bind_def)
  next
    case False2: False
    then show ?thesis using False by (simp add: extract_payload_def)
  qed
qed












lemma bind_cases:
  assumes "bind f k w = (r, w')"
  obtains (raised) e where "f w = (Inl e, w')" "r = Inl e"
        | (went_on) x w1 where "f w = (Inr x, w1)" "k x w1 = (r, w')"
  using assms by (auto simp: bind_def split: prod.splits sum.splits)


section \<open>Fallbacks of the topic chooser and the reflector\<close>













section \<open>Research runner: bounds on the calls\<close>

lemma fetch_page_content_trace:
  "fetch_page_content en url n w = (r, w') \<Longrightarrow> trace w' = trace w @ [EFetch url]"
  by (auto simp: fetch_page_content_def Let_def split: sum.splits prod.splits if_splits)

lemma fetch_page_content_returns:
  "\<exists>c w'. fetch_page_content en url n w = (Inr c, w')"
  by (auto simp: fetch_page_content_def Let_def split: sum.splits prod.splits if_splits)

lemma db_execute_trace:
  "db_execute en name stmt w = (r, w') \<Longrightarrow> trace w' = trace w @ [EDb name]"
  by (auto simp: db_execute_def Let_def split: option.splits sum.splits prod.splits)

lemma save_research_result_trace:
  "save_research_result en rid q u t s c ct rel w = (r, w') \<Longrightarrow>
     trace w' = trace w @ [EDb ''save_research_result'']"
  unfolding save_research_result_def by (rule db_execute_trace)

lemma search_web_trace:
  "search_web en q n w = (r, w') \<Longrightarrow> trace w' = trace w @ [ESearch q n] \<and> (\<exists>hits. r = Inr hits)"
  by (auto simp: search_web_def Let_def split: sum.splits)

lemma research_results_loop_trace:
  "research_results_loop en q rid rs acc w = (r, w') \<Longrightarrow>
     \<exists>evs. trace w' = trace w @ evs \<and> (\<forall>e \<in> set evs. \<not> is_search e)
          \<and> length (filter is_fetch evs) \<le> length rs"
proof (induction rs arbitrary: acc w)
  case Nil
  then show ?case by (simp add: ret_def)
next
  case (Cons result rest)
  show ?case
  proof (cases "dict_get result ''url'' [] = []")
    case True
    then have "research_results_loop en q rid rest acc w = (r, w')"
      using Cons.prems by simp
    from Cons.IH[OF this] show ?thesis by auto
  next
    case False
    define url where "url = dict_get result ''url'' []"
    obtain c w1 where f: "fetch_page_content en url MAX_CONTENT_PER_PAGE w = (Inr c, w1)"
      using fetch_page_content_returns by blast
    have t1: "trace w1 = trace w @ [EFetch url]"
      using fetch_page_content_trace[OF f] .
    define save where "save = (if py_truthy rid
                then save_research_result en rid q url
                       (dict_get result ''title'' []) (dict_get result ''snippet'' [])
                       c ''article'' PNone
                else ret ())"
    obtain sr w2 where s: "save w1 = (sr, w2)"
      by (cases "save w1") auto
    have t2: "\<exists>evs. trace w2 = trace w1 @ evs \<and> (\<forall>e \<in> set evs. \<not> is_search e \<and> \<not> is_fetch e)"
      using s save_research_result_trace[of en rid q url _ _ c _ _ w1 sr w2]
      by (auto simp: save_def ret_def split: if_splits)
    then obtain evs2 where e2: "trace w2 = trace w1 @ evs2"
      "\<forall>e \<in> set evs2. \<not> is_search e \<and> \<not> is_fetch e" by blast
    show ?thesis
    proof (cases sr)
      case (Inl e)
      then have "w' = w2"
        using Cons.prems False f s
        by (simp add: Let_def bind_def url_def[symmetric] save_def[symmetric])
      then show ?thesis
        using t1 e2 by (intro exI[of _ "EFetch url # evs2"]) (auto simp: filter_empty_conv)
    next
      case (Inr u)
      then have "research_results_loop en q rid rest
           (acc @ [\<lparr>it_query = q, it_url = url, it_title = dict_get result ''title'' [],
                    it_snippet = dict_get result ''snippet'' [], it_content = c\<rparr>]) w2 = (r, w')"
        using Cons.prems False f s
        by (simp add: Let_def bind_def url_def[symmetric] save_def[symmetric])
      from Cons.IH[OF this] obtain evs3 where e3: "trace w' = trace w2 @ evs3"
        "\<forall>e \<in> set evs3. \<not> is_search e" "length (filter is_fetch evs3) \<le> length rest"
        by blast
      have "filter is_fetch evs2 = []"
        using e2(2) by (simp add: filter_empty_conv)
      then show ?thesis
        using t1 e2 e3 by (intro exI[of _ "EFetch url # evs2 @ evs3"]) auto
    qed
  qed
qed

lemma fps_no_search:
  "\<forall>e \<in> set seg. \<not> is_search e \<Longrightarrow> fetches_per_search (seg @ rest) = fetches_per_search rest"
  by (induction seg) auto

lemma takeWhile_segment:
  "\<forall>e \<in> set seg. \<not> is_search e \<Longrightarrow> rest = [] \<or> is_search (hd rest) \<Longrightarrow>
     takeWhile (\<lambda>x. \<not> is_search x) (seg @ rest) = seg"
  by (cases rest) (auto simp: takeWhile_append2)

lemma fps_segment:
  assumes "is_search s" "\<forall>e \<in> set seg. \<not> is_search e" "rest = [] \<or> is_search (hd rest)"
  shows "fetches_per_search (s # seg @ rest) = length (filter is_fetch seg) # fetches_per_search rest"
proof -
  have tw: "takeWhile (\<lambda>x. \<not> is_search x) (seg @ rest) = seg"
    using assms(2,3) by (rule takeWhile_segment)
  have "fetches_per_search (s # seg @ rest) =
          length (filter is_fetch (takeWhile (\<lambda>x. \<not> is_search x) (seg @ rest)))
            # fetches_per_search (seg @ rest)"
    using assms(1) by (simp only: fetches_per_search.simps if_True)
  then show ?thesis
    by (simp only: tw fps_no_search[OF assms(2)])
qed

lemma py_slice_to_length: "0 \<le> n \<Longrightarrow> length (py_slice_to xs n) \<le> nat n"
  by (simp add: py_slice_to_def)

lemma research_queries_loop_trace:
  "research_queries_loop en rid qs acc w = (r, w') \<Longrightarrow>
     \<exists>evs. trace w' = trace w @ evs \<and> (evs = [] \<or> is_search (hd evs))
          \<and> prefix (filter is_search evs) (map (\<lambda>q. ESearch q MAX_RESULTS_PER_QUERY) qs)
          \<and> list_all (\<lambda>n. n \<le> 2) (fetches_per_search evs)
          \<and> length (filter is_fetch evs) \<le> 2 * length qs"
proof (induction qs arbitrary: acc w)
  case Nil
  then show ?case by (simp add: ret_def)
next
  case (Cons q qs)
  define s where "s = ESearch q MAX_RESULTS_PER_QUERY"
  obtain sr w1 where sw: "search_web en q MAX_RESULTS_PER_QUERY w = (sr, w1)"
    by (cases "search_web en q MAX_RESULTS_PER_QUERY w") auto
  from search_web_trace[OF sw] obtain hits where
    t1: "trace w1 = trace w @ [s]" and sr: "sr = Inr hits"
    by (auto simp: s_def)
  obtain lr w2 where lp:
    "research_results_loop en q rid (py_slice_to hits 2) acc w1 = (lr, w2)"
    by (cases "research_results_loop en q rid (py_slice_to hits 2) acc w1") auto
  from research_results_loop_trace[OF lp] obtain seg where
    seg: "trace w2 = trace w1 @ seg" "\<forall>e \<in> set seg. \<not> is_search e"
      "length (filter is_fetch seg) \<le> length (py_slice_to hits 2)"
    by blast
  have seg2: "length (filter is_fetch seg) \<le> 2"
    using seg(3) py_slice_to_length[of 2 hits] by simp
  have nosearch: "filter is_search seg = []"
    using seg(2) by (simp add: filter_empty_conv)
  have is_s: "is_search s" by (simp add: s_def)
  show ?case
  proof (cases lr)
    case (Inl e)
    then have "w' = w2"
      using Cons.prems sw sr lp by (simp add: bind_def)
    moreover have "fetches_per_search (s # seg @ []) = length (filter is_fetch seg) # fetches_per_search []"
      using is_s seg(2) by (intro fps_segment) auto
    ultimately show ?thesis
      using t1 seg(1) seg2 nosearch is_s
      by (intro exI[of _ "s # seg"]) (auto simp: s_def)
  next
    case (Inr acc')
    then have "research_queries_loop en rid qs acc' w2 = (r, w')"
      using Cons.prems sw sr lp by (simp add: bind_def)
    from Cons.IH[OF this] obtain rest where
      rest: "trace w' = trace w2 @ rest" "rest = [] \<or> is_search (hd rest)"
        "prefix (filter is_search rest) (map (\<lambda>q. ESearch q MAX_RESULTS_PER_QUERY) qs)"
        "list_all (\<lambda>n. n \<le> 2) (fetches_per_search rest)"
        "length (filter is_fetch rest) \<le> 2 * length qs"
      by blast
    have "fetches_per_search (s # seg @ rest) = length (filter is_fetch seg) # fetches_per_search rest"
      using is_s seg(2) rest(2) by (rule fps_segment)
    then show ?thesis
      using t1 seg(1) seg2 nosearch is_s rest
      by (intro exI[of _ "s # seg @ rest"]) (auto simp: s_def)
  qed
qed

lemma perform_research_trace:
  assumes "perform_research en queries rid w = (r, w')"
  shows "\<exists>evs. trace w' = trace w @ evs
          \<and> length (filter is_search evs) \<le> 3
          \<and> list_all (\<lambda>n. n \<le> 2) (fetches_per_search evs)
          \<and> length (filter is_fetch evs) \<le> 6
          \<and> (\<forall>qs. queries = PList qs \<longrightarrow>
                prefix (filter is_search evs)
                  (map (\<lambda>q. ESearch q MAX_RESULTS_PER_QUERY) (take 3 qs)))"
proof (cases "py_slice_iter queries MAX_SEARCH_QUERIES")
  case (Inl e)
  then have "w' = w"
    using assms by (simp add: perform_research_def bind_def lift_def)
  then show ?thesis by simp
next
  case (Inr qs)
  have len: "length qs \<le> 3"
    using Inr py_slice_to_length[of 3]
    by (cases queries) (auto simp: MAX_SEARCH_QUERIES_def py_slice_to_def)
  have lst: "\<forall>xs. queries = PList xs \<longrightarrow> qs = take 3 xs"
    using Inr by (auto simp: MAX_SEARCH_QUERIES_def py_slice_to_def)
  have "research_queries_loop en rid qs [] w = (r, w')"
    using assms Inr by (simp add: perform_research_def bind_def lift_def)
  from research_queries_loop_trace[OF this] obtain evs where
    evs: "trace w' = trace w @ evs"
      "prefix (filter is_search evs) (map (\<lambda>q. ESearch q MAX_RESULTS_PER_QUERY) qs)"
      "list_all (\<lambda>n. n \<le> 2) (fetches_per_search evs)"
      "length (filter is_fetch evs) \<le> 2 * length qs"
    by blast
  have "length (filter is_search evs) \<le> length qs"
    using prefix_length_le[OF evs(2)] by simp
  then show ?thesis
    using evs len lst by (intro exI[of _ evs]) auto
qed

text \<open>
  C1. Whatever the queries, the request id and the answers of the outside,
  \<^verbatim>\<open>perform_research\<close> only adds to the trace, and what it adds holds at most 3
  web searches, at most 2 page fetches after each search, and so at most 6 page fetches.
  For a list of queries the searches made are, in order, searches for its first three
  items (all of them unless saving a result raises on the way).
\<close>

theorem perform_research_call_bounds:
  "(let w' = snd (perform_research en queries request_id w); evs = new_events w w' in
      trace w' = trace w @ evs
    \<and> length (filter is_search evs) \<le> 3
    \<and> list_all (\<lambda>n. n \<le> 2) (fetches_per_search evs)
    \<and> length (filter is_fetch evs) \<le> 6
    \<and> (\<forall>qs. queries = PList qs \<longrightarrow>
          prefix (filter is_search evs)
            (map (\<lambda>q. ESearch q MAX_RESULTS_PER_QUERY) (take 3 qs))))"
proof -
  obtain r w' where run: "perform_research en queries request_id w = (r, w')"
    by (cases "perform_research en queries request_id w") auto
  from perform_research_trace[OF run] obtain evs where
    evs: "trace w' = trace w @ evs"
      "length (filter is_search evs) \<le> 3"
      "list_all (\<lambda>n. n \<le> 2) (fetches_per_search evs)"
      "length (filter is_fetch evs) \<le> 6"
      "\<forall>qs. queries = PList qs \<longrightarrow>
          prefix (filter is_search evs) (map (\<lambda>q. ESearch q MAX_RESULTS_PER_QUERY) (take 3 qs))"
    by blast
  have "new_events w w' = evs"
    using evs(1) by (simp add: new_events_def)
  then show ?thesis
    using run evs by (simp add: Let_def)
qed

lemma busy_research_trace:
  "trace (snd (perform_research busy_env four_queries (PInt 1) fresh_world)) =
     [ESearch (PStr ''X'') 3, EFetch ''http://a'', EDb ''save_research_result'',
        EFetch ''http://b'', EDb ''save_research_result'',
      ESearch (PStr ''Y'') 3, EFetch ''http://a'', EDb ''save_research_result'',
        EFetch ''http://b'', EDb ''save_research_result'',
      ESearch (PStr ''Z'') 3, EFetch ''http://a'', EDb ''save_research_result'',
        EFetch ''http://b'', EDb ''save_research_result'']"
  by (simp add: perform_research_def four_queries_def bind_def lift_def ret_def
        MAX_SEARCH_QUERIES_def MAX_RESULTS_PER_QUERY_def MAX_CONTENT_PER_PAGE_def
        py_slice_to_def search_web_def busy_env_def quiet_env_def fresh_world_def
        provider_rows_def search_hit_def dict_get_def fetch_page_content_def Let_def
        save_research_result_def db_execute_def sql_save_research_result_def empty_db_def)

theorem perform_research_call_bounds_witness:
  "(let w' = snd (perform_research busy_env four_queries (PInt 1) fresh_world);
        evs = new_events fresh_world w'
    in length (filter is_search evs) = 3
     \<and> fetches_per_search evs = [2, 2, 2]
     \<and> length (filter is_fetch evs) = 6
     \<and> filter is_search evs =
         map (\<lambda>q. ESearch q MAX_RESULTS_PER_QUERY) [PStr ''X'', PStr ''Y'', PStr ''Z''])"
proof -
  have start: "trace fresh_world = []"
    by (simp add: fresh_world_def)
  from perform_research_call_bounds[of busy_env four_queries "PInt 1" fresh_world]
  show ?thesis
    by (simp add: busy_research_trace new_events_def start Let_def MAX_RESULTS_PER_QUERY_def)
qed

section \<open>The session table along a run\<close>

named_theorems keeps

lemma keeps_ret [keeps]: "keeps_sessions (ret x)"
  by (simp add: keeps_sessions_def ret_def)

lemma keeps_lift [keeps]: "keeps_sessions (lift r)"
  by (simp add: keeps_sessions_def lift_def)

lemma keeps_bind [keeps]:
  "keeps_sessions f \<Longrightarrow> (\<And>x. keeps_sessions (k x)) \<Longrightarrow> keeps_sessions (bind f k)"
  unfolding keeps_sessions_def
proof (intro allI impI)
  fix w r w'
  assume k: "\<And>x. \<forall>w r w'. k x w = (r, w') \<longrightarrow>
                 learning_sessions (store w') = learning_sessions (store w)"
    and f: "\<forall>w r w'. f w = (r, w') \<longrightarrow> learning_sessions (store w') = learning_sessions (store w)"
  assume "bind f k w = (r, w')"
  then show "learning_sessions (store w') = learning_sessions (store w)"
  proof (cases rule: bind_cases)
    case (raised e)
    then show ?thesis using f by blast
  next
    case (went_on x w1)
    have "learning_sessions (store w1) = learning_sessions (store w)"
      using f went_on(1) by blast
    moreover have "learning_sessions (store w') = learning_sessions (store w1)"
      using k[of x] went_on(2) by blast
    ultimately show ?thesis by simp
  qed
qed

lemma keeps_if [keeps]:
  "keeps_sessions f \<Longrightarrow> keeps_sessions g \<Longrightarrow> keeps_sessions (if b then f else g)"
  by simp

lemma keeps_db_execute:
  "(\<And>now d x d'. stmt now d = Inr (x, d') \<Longrightarrow> learning_sessions d' = learning_sessions d) \<Longrightarrow>
     keeps_sessions (db_execute en name stmt)"
  unfolding keeps_sessions_def db_execute_def
  by (auto simp: Let_def split: option.splits sum.splits prod.splits)

lemma keeps_db_read [keeps]: "keeps_sessions (db_read en name)"
  unfolding db_read_def by (rule keeps_db_execute) simp

lemma keeps_add_learning_interest [keeps]:
  "keeps_sessions (add_learning_interest en t y s p g)"
  unfolding add_learning_interest_def
  by (rule keeps_db_execute) (auto simp: sql_add_learning_interest_def Let_def)

lemma keeps_update_interest_insights [keeps]:
  "keeps_sessions (update_interest_insights en i ins qs)"
  unfolding update_interest_insights_def
  by (intro keeps_bind keeps_lift keeps_db_execute)
     (auto simp: sql_update_interest_def split: sum.splits option.splits)

lemma keeps_queue_research [keeps]:
  "keeps_sessions (queue_research en t q y h p i j)"
  unfolding queue_research_def
  by (rule keeps_db_execute) (auto simp: sql_queue_research_def Let_def)

lemma keeps_update_research_status [keeps]:
  "keeps_sessions (update_research_status en i s e)"
  unfolding update_research_status_def
  by (rule keeps_db_execute)
     (auto simp: sql_update_research_status_def split: sum.splits option.splits)

lemma keeps_save_research_result [keeps]:
  "keeps_sessions (save_research_result en i q u t s c ct rel)"
  unfolding save_research_result_def
  by (rule keeps_db_execute) (auto simp: sql_save_research_result_def)

lemma keeps_record_insight [keeps]:
  "keeps_sessions (record_insight en t s i q c so r n)"
  unfolding record_insight_def
  by (rule keeps_db_execute) (auto simp: sql_record_insight_def Let_def)

lemma keeps_get_client [keeps]: "keeps_sessions (get_client en)"
  by (auto simp: keeps_sessions_def get_client_def Let_def split: if_splits option.splits)

lemma keeps_messages_create [keeps]: "keeps_sessions (client_messages_create en mo n)"
  by (auto simp: keeps_sessions_def client_messages_create_def Let_def)

lemma keeps_search_web [keeps]: "keeps_sessions (search_web en q n)"
  by (auto simp: keeps_sessions_def search_web_def Let_def split: sum.splits)

lemma keeps_fetch_page_content [keeps]: "keeps_sessions (fetch_page_content en u n)"
  by (auto simp: keeps_sessions_def fetch_page_content_def Let_def
        split: sum.splits prod.splits if_splits)

lemma keeps_choose_learning_topic [keeps]: "keeps_sessions (choose_learning_topic en)"
  unfolding choose_learning_topic_def by (intro keeps)

lemma keeps_reflect_on_learning [keeps]: "keeps_sessions (reflect_on_learning en t rs h)"
  unfolding reflect_on_learning_def by (intro keeps)

lemma keeps_research_results_loop [keeps]:
  "keeps_sessions (research_results_loop en q rid rs acc)"
proof (induction rs arbitrary: acc)
  case Nil
  show ?case by (simp add: keeps_ret)
next
  case (Cons result rest)
  show ?case
    by (simp add: Let_def) (intro conjI impI keeps Cons.IH)
qed

lemma keeps_research_queries_loop [keeps]:
  "keeps_sessions (research_queries_loop en rid qs acc)"
proof (induction qs arbitrary: acc)
  case Nil
  show ?case by (simp add: keeps_ret)
next
  case (Cons q qs)
  show ?case
    by simp (intro keeps Cons.IH)
qed

lemma keeps_perform_research [keeps]: "keeps_sessions (perform_research en qs rid)"
  unfolding perform_research_def by (intro keeps)

lemma raising_of_keeps: "keeps_sessions f \<Longrightarrow> raising_keeps_sessions f"
  by (simp add: keeps_sessions_def raising_keeps_sessions_def)

lemma raising_bind:
  assumes "keeps_sessions f"
    and "\<And>x w w'. f w = (Inr x, w') \<Longrightarrow> raising_keeps_sessions (k x)"
  shows "raising_keeps_sessions (bind f k)"
  unfolding raising_keeps_sessions_def
proof (intro allI impI)
  fix w e w'
  assume run: "bind f k w = (Inl e, w')"
  from run show "learning_sessions (store w') = learning_sessions (store w)"
  proof (cases rule: bind_cases)
    case (raised e')
    then show ?thesis using assms(1) by (auto simp: keeps_sessions_def)
  next
    case (went_on x w1)
    have "learning_sessions (store w1) = learning_sessions (store w)"
      using assms(1) went_on(1) by (auto simp: keeps_sessions_def)
    moreover have "learning_sessions (store w') = learning_sessions (store w1)"
      using assms(2)[OF went_on(1)] went_on(2) by (auto simp: raising_keeps_sessions_def)
    ultimately show ?thesis by simp
  qed
qed

lemma raising_db_execute: "raising_keeps_sessions (db_execute en name stmt)"
  unfolding raising_keeps_sessions_def db_execute_def
  by (auto simp: Let_def split: option.splits sum.splits prod.splits)

lemma raising_then_ret:
  "raising_keeps_sessions f \<Longrightarrow> (\<And>x. \<exists>y. k x = ret y) \<Longrightarrow> raising_keeps_sessions (bind f k)"
  unfolding raising_keeps_sessions_def
proof (intro allI impI)
  fix w e w'
  assume f: "\<forall>w e w'. f w = (Inl e, w') \<longrightarrow>
               learning_sessions (store w') = learning_sessions (store w)"
    and k: "\<And>x. \<exists>y. k x = ret y"
  assume "bind f k w = (Inl e, w')"
  then show "learning_sessions (store w') = learning_sessions (store w)"
  proof (cases rule: bind_cases)
    case (raised e')
    then show ?thesis using f by blast
  next
    case (went_on x w1)
    obtain y where "k x = ret y" using k by blast
    then show ?thesis using went_on(2) by (simp add: ret_def)
  qed
qed

lemma raising_complete: "raising_keeps_sessions (complete_learning_session en i t r s a b c e)"
  unfolding complete_learning_session_def by (rule raising_db_execute)

lemma raising_session_no_results: "raising_keeps_sessions (session_no_results en c)"
  unfolding session_no_results_def
  by (intro raising_bind keeps raising_then_ret raising_complete) auto

section \<open>The error path of a session\<close>

lemma raising_session_reflect: "raising_keeps_sessions (session_reflect en c results)"
  unfolding session_reflect_def
  apply (rule raising_bind, (intro keeps)[1])+
  apply (rule raising_then_ret, rule raising_complete)
  apply (auto simp: bind_def lift_def ret_def fun_eq_iff split: sum.splits if_splits)
  done

lemma raising_after_setup:
  "raising_keeps_sessions
     (bind (perform_research en (c_queries c) (c_request_id c)) (\<lambda>results.
        if results = [] then session_no_results en c else session_reflect en c results))"
  by (rule raising_bind, rule keeps_perform_research)
     (simp add: raising_session_no_results raising_session_reflect)

lemma keeps_sessionsD:
  "keeps_sessions f \<Longrightarrow> f w = (r, w') \<Longrightarrow> learning_sessions (store w') = learning_sessions (store w)"
  by (auto simp: keeps_sessions_def)

lemma raising_keeps_sessionsD:
  "raising_keeps_sessions f \<Longrightarrow> f w = (Inl e, w') \<Longrightarrow>
     learning_sessions (store w') = learning_sessions (store w)"
  by (auto simp: raising_keeps_sessions_def)

lemma start_learning_session_result:
  "start_learning_session en stype w = (Inr sid, w0) \<Longrightarrow>
     sid = session_seq (store w) + 1
     \<and> (\<exists>now. learning_sessions (store w0) =
                 (learning_sessions (store w))(sid \<mapsto> new_session_row stype now))"
  by (auto simp: start_learning_session_def db_execute_def Let_def sql_start_learning_session_def
        split: option.splits)

lemma after_start:
  assumes rest: "\<And>x. keeps_sessions (k x)"
    and started: "start_learning_session en stype w = (Inr sid, w0)"
    and run: "bind (start_learning_session en stype) k w = (r, w1)"
  shows "learning_sessions (store w1) = learning_sessions (store w0)"
proof -
  from run show ?thesis
  proof (cases rule: bind_cases)
    case (raised e)
    then show ?thesis using started by simp
  next
    case (went_on x wa)
    then have "k x w0 = (r, w1)"
      using started by simp
    then show ?thesis
      using rest[of x] by (auto simp: keeps_sessions_def)
  qed
qed

lemma setup_sessions:
  assumes started: "start_learning_session en ''autonomous'' w = (Inr sid, w0)"
    and prep: "session_setup en w = (r, w1)"
  shows "learning_sessions (store w1) = learning_sessions (store w0)"
  by (rule after_start[OF _ started prep[unfolded session_setup_def]]) (intro keeps)

lemma try_sessions:
  assumes started: "start_learning_session en ''autonomous'' w = (Inr sid, w0)"
    and raised: "run_learning_session_try en w = (Inl e, w1)"
  shows "learning_sessions (store w1) = learning_sessions (store w0)"
proof -
  from raised show ?thesis
    unfolding run_learning_session_try_def
  proof (cases rule: bind_cases)
    case (raised e')
    then show ?thesis using setup_sessions[OF started] by blast
  next
    case (went_on c wa)
    have "learning_sessions (store wa) = learning_sessions (store w0)"
      using setup_sessions[OF started went_on(1)] .
    moreover have "learning_sessions (store w1) = learning_sessions (store wa)"
      using raising_keeps_sessionsD[OF raising_after_setup went_on(2)] .
    ultimately show ?thesis by simp
  qed
qed

text \<open>
  C10. When \<^verbatim>\<open>start_learning_session\<close> has created the session row and an exception
  then escapes the body of the \<^verbatim>\<open>try\<close>, \<^verbatim>\<open>run_learning_session\<close> returns the
  dict with status \<^verbatim>\<open>error\<close> and the exception's message, and the world it leaves is
  the world in which the exception was raised: the handler sends nothing to the store,
  so a request in progress stays as it is. The table of sessions is as
  \<^verbatim>\<open>start_learning_session\<close> left it: the run's session row is still
  \<^verbatim>\<open>in_progress\<close>, with no error message and no completion time.
\<close>

theorem run_learning_session_error_leaves_session:
  assumes started: "start_learning_session en ''autonomous'' w = (Inr sid, w0)"
    and raised: "run_learning_session_try en w = (Inl e, w1)"
  shows "run_learning_session en w =
           ([(''status'', PStr ''error''), (''error'', PStr (exn_str e))], w1)
     \<and> learning_sessions (store w1) = learning_sessions (store w0)
     \<and> (\<exists>row. learning_sessions (store w1) sid = Some row
           \<and> s_status row = ''in_progress''
           \<and> s_error_message row = PNone
           \<and> s_completed_at row = None)"
proof -
  have res: "run_learning_session en w =
           ([(''status'', PStr ''error''), (''error'', PStr (exn_str e))], w1)"
    using raised by (simp add: run_learning_session_def)
  have same: "learning_sessions (store w1) = learning_sessions (store w0)"
    using try_sessions[OF started raised] .
  obtain now where
    "learning_sessions (store w0) sid = Some (new_session_row ''autonomous'' now)"
    using start_learning_session_result[OF started] by auto
  then have "\<exists>row. learning_sessions (store w1) sid = Some row
           \<and> s_status row = ''in_progress''
           \<and> s_error_message row = PNone
           \<and> s_completed_at row = None"
    using same by (simp add: new_session_row_def)
  then show ?thesis using res same by simp
qed

section \<open>The result of a session\<close>

lemma returns_ret: "P x \<Longrightarrow> returns P (ret x)"
  by (simp add: returns_def ret_def)

lemma returns_bind: "(\<And>x. returns P (k x)) \<Longrightarrow> returns P (bind f k)"
  unfolding returns_def
proof (intro allI impI)
  fix w x w'
  assume k: "\<And>y. \<forall>w x w'. k y w = (Inr x, w') \<longrightarrow> P x"
  assume "bind f k w = (Inr x, w')"
  then show "P x"
  proof (cases rule: bind_cases)
    case (raised e)
    then show ?thesis by simp
  next
    case (went_on y w1)
    then show ?thesis using k[of y] by blast
  qed
qed

lemma returns_if: "returns P f \<Longrightarrow> returns P g \<Longrightarrow> returns P (if b then f else g)"
  by simp

lemma returns_weaken: "returns P f \<Longrightarrow> (\<And>x. P x \<Longrightarrow> Q x) \<Longrightarrow> returns Q f"
  by (auto simp: returns_def)

lemma returns_session_no_results: "returns failed_result (session_no_results en c)"
  unfolding session_no_results_def
  by (intro returns_bind returns_ret) (simp add: failed_result_def)

lemma returns_session_reflect: "returns completed_result (session_reflect en c results)"
  unfolding session_reflect_def
  by (intro returns_bind returns_ret) (simp add: completed_result_def)

lemma returns_try:
  "returns (\<lambda>res. completed_result res \<or> failed_result res) (run_learning_session_try en)"
  unfolding run_learning_session_try_def
  by (intro returns_bind returns_if
        returns_weaken[OF returns_session_no_results]
        returns_weaken[OF returns_session_reflect]) simp_all

text \<open>
  C3, amended. The dict \<^verbatim>\<open>run_learning_session\<close> returns has one of three shapes:
  status \<^verbatim>\<open>completed\<close> with the keys session_id, topic, insights, new_questions,
  summary and new_interest (the newly sparked topic or \<^verbatim>\<open>None\<close>); status
  \<^verbatim>\<open>failed\<close> with the keys error and topic; status \<^verbatim>\<open>error\<close>, from the outermost
  handler, with the key error only. So \<^verbatim>\<open>status\<close> is always there, and
  \<^verbatim>\<open>topic\<close> is there unless the status is \<^verbatim>\<open>error\<close>.
\<close>

theorem run_learning_session_result_shape:
  "completed_result (fst (run_learning_session en w))
   \<or> failed_result (fst (run_learning_session en w))
   \<or> error_result (fst (run_learning_session en w))"
proof (cases "run_learning_session_try en w")
  case (Pair r w')
  show ?thesis
  proof (cases r)
    case (Inl e)
    then show ?thesis
      using Pair by (simp add: run_learning_session_def error_result_def)
  next
    case (Inr res)
    then have "completed_result res \<or> failed_result res"
      using Pair returns_try[of en] by (auto simp: returns_def)
    then show ?thesis
      using Pair Inr by (auto simp: run_learning_session_def)
  qed
qed

lemma no_key_started:
  "start_learning_session no_key_env ''autonomous'' fresh_world =
     (Inr 1, snd (start_learning_session no_key_env ''autonomous'' fresh_world))"
  by (simp add: start_learning_session_def db_execute_def Let_def sql_start_learning_session_def
        no_key_env_def quiet_env_def fresh_world_def empty_db_def)

lemma no_key_raised:
  "run_learning_session_try no_key_env fresh_world =
     (Inl (Exn ''ValueError'' ''ANTHROPIC_API_KEY not found in environment or secrets''),
      snd (run_learning_session_try no_key_env fresh_world))"
  by (simp add: run_learning_session_try_def session_setup_def bind_def
        start_learning_session_def db_execute_def Let_def sql_start_learning_session_def
        choose_learning_topic_def get_client_def
        no_key_env_def quiet_env_def fresh_world_def empty_db_def)

theorem run_learning_session_error_leaves_session_witness:
  "fst (start_learning_session no_key_env ''autonomous'' fresh_world) = Inr 1
   \<and> fst (run_learning_session_try no_key_env fresh_world) =
       Inl (Exn ''ValueError'' ''ANTHROPIC_API_KEY not found in environment or secrets'')
   \<and> fst (run_learning_session no_key_env fresh_world) =
       [(''status'', PStr ''error''),
        (''error'', PStr ''ANTHROPIC_API_KEY not found in environment or secrets'')]
   \<and> map_option s_status
        (learning_sessions (store (snd (run_learning_session no_key_env fresh_world))) 1) =
       Some ''in_progress''"
proof -
  from run_learning_session_error_leaves_session[OF no_key_started no_key_raised]
  have "run_learning_session no_key_env fresh_world =
          ([(''status'', PStr ''error''),
            (''error'', PStr ''ANTHROPIC_API_KEY not found in environment or secrets'')],
           snd (run_learning_session_try no_key_env fresh_world))"
    and "\<exists>row. learning_sessions (store (snd (run_learning_session_try no_key_env fresh_world))) 1
                 = Some row \<and> s_status row = ''in_progress''"
    by auto
  then show ?thesis
    using no_key_started no_key_raised by (auto simp: prod_eq_iff)
qed

text \<open>
  C3, as the claim has it, fails: when no API key can be found, the exception is caught
  by the outermost handler and the dict returned has a status and an error but no
  \<^verbatim>\<open>topic\<close>.
\<close>

theorem run_learning_session_topic_counterexample:
  "map_of (fst (run_learning_session no_key_env fresh_world)) ''status'' = Some (PStr ''error'')
   \<and> map_of (fst (run_learning_session no_key_env fresh_world)) ''topic'' = None"
proof -
  have "fst (run_learning_session no_key_env fresh_world) =
       [(''status'', PStr ''error''),
        (''error'', PStr ''ANTHROPIC_API_KEY not found in environment or secrets'')]"
    using no_key_raised by (simp add: run_learning_session_def prod_eq_iff split: prod.splits)
  then show ?thesis by simp
qed

section \<open>A session whose research finds nothing\<close>

























end
